theory Spec2Isabelle
  imports Main
begin

section \<open>Values, strings and paths\<close>

text \<open>
  The three scripts under \<^verbatim>\<open>src/Tool\<close> work on JSON documents loaded with
  \<^verbatim>\<open>json.load\<close>. Identifiers (record id, channel id, user id) are JSON scalars:
  a string, an integer or null. Strings are \<^typ>\<open>string\<close>; integers are Python's
  unbounded integers, \<^typ>\<open>int\<close>.
\<close>

datatype jval = JNull | JInt int | JStr string

type_synonym path = string

definition digit_char :: "nat \<Rightarrow> char" where
  "digit_char d = ''0123456789'' ! d"

fun show_nat :: "nat \<Rightarrow> string" where
  "show_nat n = (if n < 10 then [digit_char n] else show_nat (n div 10) @ [digit_char (n mod 10)])"

declare show_nat.simps [simp del]

definition show_int :: "int \<Rightarrow> string" where
  "show_int i = (if i < 0 then CHR ''-'' # show_nat (nat (- i)) else show_nat (nat i))"

text \<open>What an f-string prints for a value: \<^verbatim>\<open>f"{v}"\<close> is \<^verbatim>\<open>str(v)\<close>.\<close>

fun py_str :: "jval \<Rightarrow> string" where
  "py_str JNull = ''None''"
| "py_str (JInt i) = show_int i"
| "py_str (JStr s) = s"

text \<open>Python's truth value of a scalar: \<^verbatim>\<open>None\<close>, \<^verbatim>\<open>0\<close> and \<^verbatim>\<open>''\<close> are false.\<close>

fun truthy :: "jval \<Rightarrow> bool" where
  "truthy JNull = False"
| "truthy (JInt i) = (i \<noteq> 0)"
| "truthy (JStr s) = (s \<noteq> [])"

text \<open>
  \<^verbatim>\<open>d.get(key, default)\<close> on the value a key has in a dictionary, \<open>None\<close> when
  the key is absent; \<^verbatim>\<open>d.get(key)\<close> is \<open>dict_get v JNull\<close>.
\<close>

definition dict_get :: "'a option \<Rightarrow> 'a \<Rightarrow> 'a" where
  "dict_get v dflt = (case v of None \<Rightarrow> dflt | Some x \<Rightarrow> x)"

text \<open>
  \<^verbatim>\<open>str.rfind(c)\<close>: the index of the last occurrence of a character, \<open>-1\<close> when
  there is none.
\<close>

definition rfind :: "char \<Rightarrow> string \<Rightarrow> int" where
  "rfind c s =
     (if c \<in> set s then int (length s) - 1 - int (length (takeWhile (\<lambda>x. x \<noteq> c) (rev s)))
      else - 1)"

text \<open>
  \<^verbatim>\<open>os.path.splitext\<close> of \<^verbatim>\<open>posixpath\<close>: the extension starts at the last dot
  of the last path component, unless that component has only dots before it.
\<close>

definition splitext :: "path \<Rightarrow> path \<times> string" where
  "splitext p =
     (let sepIndex = rfind CHR ''/'' p;
          dotIndex = rfind CHR ''.'' p
      in if dotIndex > sepIndex \<and>
            list_ex (\<lambda>c. c \<noteq> CHR ''.'')
              (take (nat (dotIndex - (sepIndex + 1))) (drop (nat (sepIndex + 1)) p))
         then (take (nat dotIndex) p, drop (nat dotIndex) p)
         else (p, []))"

text \<open>\<^verbatim>\<open>os.path.join(a, b)\<close> of \<^verbatim>\<open>posixpath\<close>, for two components.\<close>

definition path_join :: "path \<Rightarrow> path \<Rightarrow> path" where
  "path_join a b =
     (if b \<noteq> [] \<and> hd b = CHR ''/'' then b
      else if a = [] \<or> last a = CHR ''/'' then a @ b
      else a @ ''/'' @ b)"

text \<open>\<^verbatim>\<open>os.path.basename\<close>: what follows the last slash.\<close>

definition basename :: "path \<Rightarrow> path" where
  "basename p = drop (nat (rfind CHR ''/'' p + 1)) p"

text \<open>\<^verbatim>\<open>str.lower\<close>, on the ASCII letters.\<close>

definition lower_char :: "char \<Rightarrow> char" where
  "lower_char c =
     (case map_of (zip ''ABCDEFGHIJKLMNOPQRSTUVWXYZ'' ''abcdefghijklmnopqrstuvwxyz'') c of
        Some l \<Rightarrow> l | None \<Rightarrow> c)"

definition lower :: "string \<Rightarrow> string" where
  "lower s = map lower_char s"

section \<open>Creation time: ISO-8601 to epoch milliseconds\<close>

text \<open>
  \<^verbatim>\<open>convert_iso_to_ms_timestamp\<close> calls \<^verbatim>\<open>datetime.fromisoformat\<close> and
  \<^verbatim>\<open>datetime.timestamp\<close>. The library is not part of the repository; it is
  modelled after the grammar CPython 3.7 to 3.10 document (the versions the source's
  comment on the trailing \<^verbatim>\<open>Z\<close> is written for):
  \<^verbatim>\<open>YYYY-MM-DD[*HH[:MM[:SS[.fff[fff]]]][+HH:MM[:SS[.ffffff]]]]\<close>,
  every number a run of ASCII digits, parsed as \<^verbatim>\<open>Lib/datetime.py\<close> parses it. A
  string outside the grammar, or a field out of range, raises \<^verbatim>\<open>ValueError\<close> in the
  model (the implementations accept a few strings more, and later versions many more).
\<close>

datatype exn = KeyError string | ValueError | OSError

definition is_digit :: "char \<Rightarrow> bool" where
  "is_digit c = (c \<in> set ''0123456789'')"

definition digit_val :: "char \<Rightarrow> nat" where
  "digit_val c = length (takeWhile (\<lambda>d. d \<noteq> c) ''0123456789'')"

definition parse_nat :: "string \<Rightarrow> nat option" where
  "parse_nat s =
     (if s \<noteq> [] \<and> list_all is_digit s
      then Some (foldl (\<lambda>acc c. 10 * acc + digit_val c) 0 s) else None)"

text \<open>\<^verbatim>\<open>s[i:j]\<close> for \<open>0 \<le> i \<le> j\<close>.\<close>

definition slice :: "nat \<Rightarrow> nat \<Rightarrow> 'a list \<Rightarrow> 'a list" where
  "slice i j s = take (j - i) (drop i s)"

definition parse_isoformat_date :: "string \<Rightarrow> (nat \<times> nat \<times> nat) option" where
  "parse_isoformat_date dtstr =
     (case (parse_nat (slice 0 4 dtstr), parse_nat (slice 5 7 dtstr), parse_nat (slice 8 10 dtstr)) of
        (Some y, Some m, Some d) \<Rightarrow>
          if length dtstr = 10 \<and> dtstr ! 4 = CHR ''-'' \<and> dtstr ! 7 = CHR ''-''
          then Some (y, m, d) else None
      | _ \<Rightarrow> None)"

text \<open>
  \<^verbatim>\<open>_parse_hh_mm_ss_ff\<close>: \<^verbatim>\<open>HH[:MM[:SS[.fff[fff]]]]\<close>, returning hours, minutes,
  seconds and microseconds. \<open>n\<close> counts the two-digit components still allowed.
\<close>

definition parse_fraction :: "string \<Rightarrow> nat option" where
  "parse_fraction s =
     (if s = [] then Some 0
      else if hd s \<noteq> CHR ''.'' then None
      else if length (tl s) = 3 then map_option (\<lambda>n. n * 1000) (parse_nat (tl s))
      else if length (tl s) = 6 then parse_nat (tl s)
      else None)"

fun parse_comps :: "nat \<Rightarrow> string \<Rightarrow> (nat list \<times> string) option" where
  "parse_comps n s =
     (if length s < 2 then None
      else case parse_nat (take 2 s) of
        None \<Rightarrow> None
      | Some v \<Rightarrow>
          let rest = drop 2 s in
          (case n of
             0 \<Rightarrow> Some ([v], rest)
           | Suc k \<Rightarrow>
               if rest = [] then Some ([v], rest)
               else if hd rest \<noteq> CHR '':'' then None
               else (case parse_comps k (tl rest) of
                       None \<Rightarrow> None
                     | Some (vs, r) \<Rightarrow> Some (v # vs, r))))"

declare parse_comps.simps [simp del]

definition parse_hh_mm_ss_ff :: "string \<Rightarrow> (nat \<times> nat \<times> nat \<times> nat) option" where
  "parse_hh_mm_ss_ff tstr =
     (case parse_comps 2 tstr of
        None \<Rightarrow> None
      | Some (vs, rest) \<Rightarrow>
          (case parse_fraction rest of
             None \<Rightarrow> None
           | Some us \<Rightarrow>
               let ws = vs @ replicate (3 - length vs) 0
               in Some (ws ! 0, ws ! 1, ws ! 2, us)))"

text \<open>
  The position after the first \<^verbatim>\<open>-\<close>, else after the first \<^verbatim>\<open>+\<close>, else 0:
  \<^verbatim>\<open>tstr.find('-') + 1 or tstr.find('+') + 1\<close>.
\<close>

definition find_plus1 :: "char \<Rightarrow> string \<Rightarrow> nat" where
  "find_plus1 c s = (if c \<in> set s then Suc (length (takeWhile (\<lambda>x. x \<noteq> c) s)) else 0)"

definition tz_pos :: "string \<Rightarrow> nat" where
  "tz_pos tstr = (if find_plus1 CHR ''-'' tstr \<noteq> 0 then find_plus1 CHR ''-'' tstr
                  else find_plus1 CHR ''+'' tstr)"

text \<open>
  A parsed time of day with the offset from UTC in microseconds (\<open>None\<close> for a naive
  time). \<^verbatim>\<open>timezone\<close> refuses an offset of a day or more.
\<close>

definition parse_isoformat_time ::
  "string \<Rightarrow> ((nat \<times> nat \<times> nat \<times> nat) \<times> int option) option" where
  "parse_isoformat_time tstr =
     (if length tstr < 2 then None
      else let p = tz_pos tstr;
               timestr = (if p > 0 then take (p - 1) tstr else tstr)
           in case parse_hh_mm_ss_ff timestr of
                None \<Rightarrow> None
              | Some tc \<Rightarrow>
                  if p = 0 then Some (tc, None)
                  else let tzstr = drop p tstr in
                    if length tzstr \<notin> {5, 8, 15} then None
                    else (case parse_hh_mm_ss_ff tzstr of
                            None \<Rightarrow> None
                          | Some (h, m, s, us) \<Rightarrow>
                              let off = int (((h * 60 + m) * 60 + s) * 1000000 + us);
                                  sgn = (if tstr ! (p - 1) = CHR ''-'' then - 1 else 1)
                              in if off < 86400000000
                                 then Some (tc, Some (sgn * off)) else None))"

text \<open>The proleptic Gregorian calendar of \<^verbatim>\<open>datetime\<close>: \<^verbatim>\<open>_ymd2ord\<close>.\<close>

definition is_leap :: "nat \<Rightarrow> bool" where
  "is_leap y = (y mod 4 = 0 \<and> (y mod 100 \<noteq> 0 \<or> y mod 400 = 0))"

definition days_in_month :: "nat \<Rightarrow> nat \<Rightarrow> nat" where
  "days_in_month y m =
     (if m = 2 \<and> is_leap y then 29
      else [31, 28, 31, 30, 31, 30, 31, 31, 30, 31, 30, 31] ! (m - 1))"

definition days_before_year :: "nat \<Rightarrow> nat" where
  "days_before_year year =
     (let y = year - 1 in y * 365 + y div 4 - y div 100 + y div 400)"

definition days_before_month :: "nat \<Rightarrow> nat \<Rightarrow> nat" where
  "days_before_month y m =
     [0, 31, 59, 90, 120, 151, 181, 212, 243, 273, 304, 334] ! (m - 1)
       + (if m > 2 \<and> is_leap y then 1 else 0)"

definition ymd2ord :: "nat \<Rightarrow> nat \<Rightarrow> nat \<Rightarrow> nat" where
  "ymd2ord y m d = days_before_year y + days_before_month y m + d"

record datetime =
  year :: nat
  month :: nat
  day :: nat
  hour :: nat
  minute :: nat
  second :: nat
  microsecond :: nat
  utcoffset :: "int option"

text \<open>
  \<^verbatim>\<open>datetime.fromisoformat\<close>: the date is the first ten characters, the eleventh is
  any separator, the rest is the time (at least the hours); the constructor checks the
  ranges.
\<close>

definition fromisoformat :: "string \<Rightarrow> exn + datetime" where
  "fromisoformat date_string =
     (case parse_isoformat_date (take 10 date_string) of
        None \<Rightarrow> Inl ValueError
      | Some (y, m, d) \<Rightarrow>
          (case (if length date_string \<le> 10 then Some ((0, 0, 0, 0), None)
                 else parse_isoformat_time (drop 11 date_string)) of
             None \<Rightarrow> Inl ValueError
           | Some ((hh, mm, ss, us), tz) \<Rightarrow>
               if 1 \<le> y \<and> y \<le> 9999 \<and> 1 \<le> m \<and> m \<le> 12 \<and> 1 \<le> d \<and> d \<le> days_in_month y m
                  \<and> hh \<le> 23 \<and> mm \<le> 59 \<and> ss \<le> 59
               then Inr \<lparr>year = y, month = m, day = d, hour = hh, minute = mm, second = ss,
                          microsecond = us, utcoffset = tz\<rparr>
               else Inl ValueError))"

text \<open>
  Microseconds since 1970-01-01T00:00:00Z (day 719163 of the calendar) of an aware
  datetime: the difference \<^verbatim>\<open>self - _EPOCH\<close> that \<^verbatim>\<open>timestamp\<close> takes.
\<close>

definition epoch_micros :: "datetime \<Rightarrow> int \<Rightarrow> int" where
  "epoch_micros dt off =
     ((int (ymd2ord (year dt) (month dt) (day dt)) - 719163) * 86400
        + int (hour dt * 3600 + minute dt * 60 + second dt)) * 1000000
      + int (microsecond dt) - off"

text \<open>
  \<^verbatim>\<open>timestamp()\<close> is a binary64 float, \<^verbatim>\<open>total_seconds()\<close> of the difference:
  the quotient of two integers, correctly rounded. The product with \<^verbatim>\<open>1000\<close> is
  rounded again and \<^verbatim>\<open>int\<close> truncates towards zero. A float is written as mantissa
  and exponent, \<open>m * 2 ^ e\<close> with \<open>m < 2 ^ 53\<close>; rounding is to nearest, ties to even.
  The magnitudes that arise are far from the subnormal and the overflow range.
\<close>

fun bit_length :: "nat \<Rightarrow> nat" where
  "bit_length n = (if n = 0 then 0 else Suc (bit_length (n div 2)))"

declare bit_length.simps [simp del]

definition rne_div :: "nat \<Rightarrow> nat \<Rightarrow> nat" where
  "rne_div n d =
     (let q = n div d; r = n mod d
      in if 2 * r < d then q
         else if 2 * r > d then q + 1
         else if even q then q else q + 1)"

definition to_double :: "nat \<Rightarrow> nat \<Rightarrow> nat \<times> int" where
  "to_double n d =
     (if n = 0 then (0, 0)
      else let l = int (bit_length n) - int (bit_length d);
               fl = (if n * 2 ^ nat (- l) \<ge> d * 2 ^ nat l then l else l - 1);
               e = fl - 52;
               m = rne_div (n * 2 ^ nat (- e)) (d * 2 ^ nat e)
           in if m = 2 ^ 53 then (2 ^ 52, e + 1) else (m, e))"

definition double_mul :: "nat \<times> int \<Rightarrow> nat \<Rightarrow> nat \<times> int" where
  "double_mul x k = (case x of (m, e) \<Rightarrow> to_double (m * k * 2 ^ nat e) (2 ^ nat (- e)))"

definition double_trunc :: "nat \<times> int \<Rightarrow> nat" where
  "double_trunc x = (case x of (m, e) \<Rightarrow> m * 2 ^ nat e div 2 ^ nat (- e))"

definition micros_to_ms :: "int \<Rightarrow> int" where
  "micros_to_ms t =
     (let ms = int (double_trunc (double_mul (to_double (nat \<bar>t\<bar>) 1000000) 1000))
      in if t < 0 then - ms else ms)"

definition convert_iso_to_ms_timestamp :: "string \<Rightarrow> exn + int" where
  "convert_iso_to_ms_timestamp iso_string =
     (let s = (if iso_string \<noteq> [] \<and> last iso_string = CHR ''Z''
               then butlast iso_string @ ''+00:00'' else iso_string)
      in case fromisoformat s of
           Inl e \<Rightarrow> Inl e
         | Inr dt_object \<Rightarrow>
             Inr (micros_to_ms (epoch_micros dt_object
                    (case utcoffset dt_object of None \<Rightarrow> 0 | Some off \<Rightarrow> off))))"

section \<open>Documents, the file system and the console\<close>

text \<open>
  An element of a record (an attachment): its \<^verbatim>\<open>type\<close> and \<^verbatim>\<open>file\<close> keys, each
  possibly absent, and the remaining keys, which no script reads or writes. The documents
  are well typed: a type and a filename are strings whenever the key is present (in the
  old schema a \<^verbatim>\<open>file\<close> that is \<^verbatim>\<open>null\<close> reads as absent).
\<close>

record element =
  etype :: "string option"
  efile :: "string option"
  payload :: "(string \<times> jval) list"

text \<open>
  A record of the new schema (a cave), as \<^verbatim>\<open>FixIndexAndAddTime.py\<close> and
  \<^verbatim>\<open>FixExtension.py\<close> read it. \<open>cid\<close> is the key \<^verbatim>\<open>id\<close>; a missing
  \<^verbatim>\<open>elements\<close> key reads as the empty list in both scripts. The creation time is a
  string whenever the key is present. The other keys of a record are not read.
\<close>

record cave =
  cid :: "jval option"
  channelId :: "jval option"
  userId :: "jval option"
  time :: "string option"
  elements :: "element list"

text \<open>
  The operating system and the content-type detector are collaborators outside the
  repository: the scripts are parametric in them. \<open>os_rename\<close> returns the new file
  system, or \<open>None\<close> when \<^verbatim>\<open>os.rename\<close> raises \<^verbatim>\<open>OSError\<close> (a failed rename
  leaves the file system as it was). \<open>filetype_guess\<close> is \<^verbatim>\<open>filetype.guess\<close>,
  which returns a kind with an extension, returns \<^verbatim>\<open>None\<close>, or raises.
\<close>

datatype guess = Kind string | NoKind | GuessRaises

record 'fs os_api =
  os_path_exists :: "'fs \<Rightarrow> path \<Rightarrow> bool"
  os_path_isdir :: "'fs \<Rightarrow> path \<Rightarrow> bool"
  os_rename :: "'fs \<Rightarrow> path \<Rightarrow> path \<Rightarrow> 'fs option"
  os_makedirs :: "'fs \<Rightarrow> path \<Rightarrow> 'fs option"
  filetype_guess :: "'fs \<Rightarrow> path \<Rightarrow> guess"

text \<open>
  The lines the scripts print, one constructor per kind of line: they are the per-run
  report. \<open>Renamed\<close> is a success line with the old and the new filename.
\<close>

datatype event =
    Renamed string string
  | SkippedMissing string
  | SkippedUndetectable string
  | AlreadyCorrect string
  | ErrorFile string
  | WarnMissingKey string
  | ErrorEntry "jval option" exn
  | WarnSkippedRecord
  | ErrorPath path
  | ErrorInvalidJson
  | ErrorWriteFailed
  | Saved
  | NothingToUpdate
  | NewUserPrompt jval
  | EmptyChannelId
  | Interrupted

text \<open>
  What every script threads through its loops: the file system, the calls of
  \<^verbatim>\<open>os.rename\<close> made so far (source and destination path) and the printed lines.
\<close>

record 'fs world =
  fsys :: 'fs
  rename_calls :: "(path \<times> path) list"
  console :: "event list"

record 'fs tally = "'fs world" +
  total_skipped :: nat

definition say :: "event \<Rightarrow> ('fs, 'a) world_scheme \<Rightarrow> ('fs, 'a) world_scheme" where
  "say ev st = st\<lparr>console := console st @ [ev]\<rparr>"

definition called_rename :: "path \<Rightarrow> path \<Rightarrow> ('fs, 'a) world_scheme \<Rightarrow> ('fs, 'a) world_scheme" where
  "called_rename src dst st = st\<lparr>rename_calls := rename_calls st @ [(src, dst)]\<rparr>"

text \<open>The content of a JSON file on storage, as \<^verbatim>\<open>json.load\<close> finds it.\<close>

datatype 'd stored = Absent | Garbage | Document 'd

section \<open>Full reindex: \<^verbatim>\<open>FixIndexAndAddTime.py\<close>\<close>

definition media_types :: "string list" where
  "media_types = [''image'', ''video'', ''audio'', ''file'', ''gif'']"

text \<open>The test of line 65: the element has a \<^verbatim>\<open>file\<close> key and a media type.\<close>

definition is_media_element :: "element \<Rightarrow> bool" where
  "is_media_element element =
     (efile element \<noteq> None \<and>
      (case etype element of None \<Rightarrow> False | Some t \<Rightarrow> t \<in> set media_types))"

record meta =
  m_cave_id :: jval
  m_channel_id :: jval
  m_user_id :: jval
  m_timestamp_ms :: int

text \<open>The f-string of line 72.\<close>

definition new_filename :: "meta \<Rightarrow> nat \<Rightarrow> string \<Rightarrow> string" where
  "new_filename m media_index extension =
     py_str (m_cave_id m) @ ''-'' @ show_nat media_index @ ''_'' @ py_str (m_channel_id m) @ ''-''
       @ py_str (m_user_id m) @ ''_'' @ show_int (m_timestamp_ms m) @ extension"

text \<open>
  The local variables of \<^verbatim>\<open>rename_files_and_update_json\<close>: the three totals, and the
  per-cave \<open>media_index\<close> and \<open>entry_updated\<close>, which keep their last value until the
  next cave assigns them.
\<close>

record 'fs rn_state = "'fs tally" +
  total_renamed :: nat
  updated_json_entries :: nat
  media_index :: nat
  entry_updated :: bool

text \<open>
  The body of the loop over the elements of a cave (lines 64 to 89). The first component
  is the exception that leaves the body, if any: only \<^verbatim>\<open>os.rename\<close> raises here.
\<close>

definition rename_element ::
  "'fs os_api \<Rightarrow> path \<Rightarrow> meta \<Rightarrow> element \<Rightarrow> 'fs rn_state
     \<Rightarrow> exn option \<times> element \<times> 'fs rn_state" where
  "rename_element os base_dir m element st =
     (case efile element of
        None \<Rightarrow> (None, element, st)
      | Some old_filename \<Rightarrow>
          if \<not> is_media_element element then (None, element, st)
          else
            let st1 = st\<lparr>media_index := media_index st + 1\<rparr>;
                extension = snd (splitext old_filename);
                new = new_filename m (media_index st1) extension;
                old_path = path_join base_dir old_filename;
                new_path = path_join base_dir new
            in if os_path_exists os (fsys st1) old_path then
                 (case os_rename os (fsys st1) old_path new_path of
                    None \<Rightarrow> (Some OSError, element, called_rename old_path new_path st1)
                  | Some fs' \<Rightarrow>
                      (None, element\<lparr>efile := Some new\<rparr>,
                       (say (Renamed old_filename new) (called_rename old_path new_path st1))
                         \<lparr>fsys := fs', entry_updated := True,
                          total_renamed := total_renamed st1 + 1\<rparr>))
               else (None, element,
                     (say (SkippedMissing old_filename) st1)
                       \<lparr>total_skipped := total_skipped st1 + 1\<rparr>))"

text \<open>
  The loop over the elements. An exception ends it: the elements not yet reached stay as
  they are.
\<close>

fun rename_elements ::
  "'fs os_api \<Rightarrow> path \<Rightarrow> meta \<Rightarrow> element list \<Rightarrow> 'fs rn_state
     \<Rightarrow> exn option \<times> element list \<times> 'fs rn_state" where
  "rename_elements os base_dir m [] st = (None, [], st)"
| "rename_elements os base_dir m (element # rest) st =
     (case rename_element os base_dir m element st of
        (Some x, element', st') \<Rightarrow> (Some x, element' # rest, st')
      | (None, element', st') \<Rightarrow>
          (case rename_elements os base_dir m rest st' of
             (x, rest', st'') \<Rightarrow> (x, element' # rest', st'')))"

text \<open>
  The body of the loop over the caves (lines 50 to 97): the \<^verbatim>\<open>try\<close> block with its
  two handlers. \<^verbatim>\<open>cave['id']\<close> and \<^verbatim>\<open>cave['time']\<close> raise \<^verbatim>\<open>KeyError\<close>.
\<close>

definition rename_cave ::
  "'fs os_api \<Rightarrow> path \<Rightarrow> cave \<Rightarrow> 'fs rn_state \<Rightarrow> cave \<times> 'fs rn_state" where
  "rename_cave os base_dir cave st =
     (case cid cave of
        None \<Rightarrow> (cave, say (WarnMissingKey ''id'') st)
      | Some cave_id \<Rightarrow>
          (case time cave of
             None \<Rightarrow> (cave, say (WarnMissingKey ''time'') st)
           | Some time_str \<Rightarrow>
               (case convert_iso_to_ms_timestamp time_str of
                  Inl e \<Rightarrow> (cave, say (ErrorEntry (cid cave) e) st)
                | Inr ts \<Rightarrow>
                    let m = \<lparr>m_cave_id = cave_id,
                             m_channel_id = dict_get (channelId cave) (JStr ''unknown''),
                             m_user_id = dict_get (userId cave) (JStr ''unknown''),
                             m_timestamp_ms = ts\<rparr>;
                        st0 = st\<lparr>media_index := 0, entry_updated := False\<rparr>
                    in (case rename_elements os base_dir m (elements cave) st0 of
                          (Some e, es, st') \<Rightarrow>
                            (cave\<lparr>elements := es\<rparr>, say (ErrorEntry (cid cave) e) st')
                        | (None, es, st') \<Rightarrow>
                            (cave\<lparr>elements := es\<rparr>,
                             if entry_updated st'
                             then st'\<lparr>updated_json_entries := updated_json_entries st' + 1\<rparr>
                             else st')))))"

fun rename_caves ::
  "'fs os_api \<Rightarrow> path \<Rightarrow> cave list \<Rightarrow> 'fs rn_state \<Rightarrow> cave list \<times> 'fs rn_state" where
  "rename_caves os base_dir [] st = ([], st)"
| "rename_caves os base_dir (cave # rest) st =
     (case rename_cave os base_dir cave st of
        (cave', st') \<Rightarrow>
          (case rename_caves os base_dir rest st' of
             (rest', st'') \<Rightarrow> (cave' # rest', st'')))"

definition rn_init :: "'fs \<Rightarrow> 'fs rn_state" where
  "rn_init fs = \<lparr>fsys = fs, rename_calls = [], console = [], total_skipped = 0,
                 total_renamed = 0, updated_json_entries = 0, media_index = 0,
                 entry_updated = False\<rparr>"

text \<open>
  \<^verbatim>\<open>rename_files_and_update_json\<close>: \<open>None\<close> (Python's \<^verbatim>\<open>None\<close>) when the media
  directory is missing, else the document after the loop.
\<close>

definition rename_files_and_update_json ::
  "'fs os_api \<Rightarrow> cave list \<Rightarrow> path \<Rightarrow> 'fs \<Rightarrow> cave list option \<times> 'fs rn_state" where
  "rename_files_and_update_json os data base_dir fs =
     (if \<not> os_path_isdir os fs base_dir then (None, say (ErrorPath base_dir) (rn_init fs))
      else case rename_caves os base_dir data (rn_init fs) of
             (data', st) \<Rightarrow> (Some data', st))"

text \<open>
  The script's main block (lines 107 to 126). \<open>input_json\<close> is what is stored at the
  input path, \<open>writable\<close> whether the output path can be opened for writing. The result
  is the document written to the output path (if any), the exception that ends the
  process (if any: \<^verbatim>\<open>json.load\<close> and \<^verbatim>\<open>open\<close> are not guarded), and the final
  state. \<^verbatim>\<open>if updated_data:\<close> is false for \<^verbatim>\<open>None\<close> and for the empty list.
\<close>

datatype crash = JSONDecodeError | WriteError | EOFError | MakedirsError

definition reindex_main ::
  "'fs os_api \<Rightarrow> cave list stored \<Rightarrow> path \<Rightarrow> bool \<Rightarrow> 'fs
     \<Rightarrow> cave list option \<times> crash option \<times> 'fs rn_state" where
  "reindex_main os input_json media_dir writable fs =
     (case input_json of
        Absent \<Rightarrow> (None, None, say (ErrorPath ''cave_export.json'') (rn_init fs))
      | Garbage \<Rightarrow>
          if \<not> os_path_isdir os fs media_dir
          then (None, None, say (ErrorPath media_dir) (rn_init fs))
          else (None, Some JSONDecodeError, rn_init fs)
      | Document cave_data \<Rightarrow>
          if \<not> os_path_isdir os fs media_dir
          then (None, None, say (ErrorPath media_dir) (rn_init fs))
          else (case rename_files_and_update_json os cave_data media_dir fs of
                  (None, st) \<Rightarrow> (None, None, st)
                | (Some updated_data, st) \<Rightarrow>
                    if updated_data = [] then (None, None, st)
                    else if writable then (Some updated_data, None, say Saved st)
                    else (None, Some WriteError, st)))"

section \<open>Extension fix: \<^verbatim>\<open>FixExtension.py\<close>\<close>

record 'fs fx_state = "'fs tally" +
  total_corrected :: nat

text \<open>
  The body of the loop over the elements (lines 49 to 94). The existence test stands
  before the \<^verbatim>\<open>try\<close>; the detector and \<^verbatim>\<open>os.rename\<close> stand inside it, and
  its handler counts the file as skipped.
\<close>

definition correct_element ::
  "'fs os_api \<Rightarrow> path \<Rightarrow> element \<Rightarrow> 'fs fx_state \<Rightarrow> element \<times> 'fs fx_state" where
  "correct_element os files_base_dir element st =
     (case efile element of
        None \<Rightarrow> (element, st)
      | Some original_filename \<Rightarrow>
          let current_path = path_join files_base_dir original_filename in
          if \<not> os_path_exists os (fsys st) current_path
          then (element, (say (SkippedMissing original_filename) st)
                           \<lparr>total_skipped := total_skipped st + 1\<rparr>)
          else
            (case filetype_guess os (fsys st) current_path of
               GuessRaises \<Rightarrow>
                 (element, (say (ErrorFile original_filename) st)
                             \<lparr>total_skipped := total_skipped st + 1\<rparr>)
             | NoKind \<Rightarrow>
                 (element, (say (SkippedUndetectable original_filename) st)
                             \<lparr>total_skipped := total_skipped st + 1\<rparr>)
             | Kind ext \<Rightarrow>
                 let correct_extension = ''.'' @ ext;
                     filename_root = fst (splitext original_filename);
                     current_extension = snd (splitext original_filename)
                 in if lower current_extension \<noteq> lower correct_extension then
                      let new = filename_root @ correct_extension;
                          new_path = path_join files_base_dir new
                      in (case os_rename os (fsys st) current_path new_path of
                            None \<Rightarrow>
                              (element,
                               (say (ErrorFile original_filename)
                                  (called_rename current_path new_path st))
                                 \<lparr>total_skipped := total_skipped st + 1\<rparr>)
                          | Some fs' \<Rightarrow>
                              (element\<lparr>efile := Some new\<rparr>,
                               (say (Renamed original_filename new)
                                  (called_rename current_path new_path st))
                                 \<lparr>fsys := fs', total_corrected := total_corrected st + 1\<rparr>))
                    else (element, say (AlreadyCorrect original_filename) st)))"

fun correct_elements ::
  "'fs os_api \<Rightarrow> path \<Rightarrow> element list \<Rightarrow> 'fs fx_state \<Rightarrow> element list \<times> 'fs fx_state" where
  "correct_elements os files_base_dir [] st = ([], st)"
| "correct_elements os files_base_dir (element # rest) st =
     (case correct_element os files_base_dir element st of
        (element', st') \<Rightarrow>
          (case correct_elements os files_base_dir rest st' of
             (rest', st'') \<Rightarrow> (element' # rest', st'')))"

fun correct_caves ::
  "'fs os_api \<Rightarrow> path \<Rightarrow> cave list \<Rightarrow> 'fs fx_state \<Rightarrow> cave list \<times> 'fs fx_state" where
  "correct_caves os files_base_dir [] st = ([], st)"
| "correct_caves os files_base_dir (cave # rest) st =
     (case correct_elements os files_base_dir (elements cave) st of
        (es, st') \<Rightarrow>
          (case correct_caves os files_base_dir rest st' of
             (rest', st'') \<Rightarrow> (cave\<lparr>elements := es\<rparr> # rest', st'')))"

definition fx_init :: "'fs \<Rightarrow> 'fs fx_state" where
  "fx_init fs = \<lparr>fsys = fs, rename_calls = [], console = [], total_skipped = 0,
                 total_corrected = 0\<rparr>"

text \<open>
  \<^verbatim>\<open>correct_files_and_update_json\<close>. \<open>json_file\<close> is what is stored at the JSON path
  (\<^verbatim>\<open>cave_export.json\<close>, as the script calls the function) and \<open>writable\<close> whether
  it can be opened for writing. The result is what is stored at the JSON path afterwards,
  and the final state.
\<close>

definition correct_files_and_update_json ::
  "'fs os_api \<Rightarrow> cave list stored \<Rightarrow> path \<Rightarrow> bool \<Rightarrow> 'fs
     \<Rightarrow> cave list stored \<times> 'fs fx_state" where
  "correct_files_and_update_json os json_file files_base_dir writable fs =
     (case json_file of
        Absent \<Rightarrow> (json_file, say (ErrorPath ''cave_export.json'') (fx_init fs))
      | Garbage \<Rightarrow>
          if \<not> os_path_isdir os fs files_base_dir
          then (json_file, say (ErrorPath files_base_dir) (fx_init fs))
          else (json_file, say ErrorInvalidJson (fx_init fs))
      | Document cave_data \<Rightarrow>
          if \<not> os_path_isdir os fs files_base_dir
          then (json_file, say (ErrorPath files_base_dir) (fx_init fs))
          else (case correct_caves os files_base_dir cave_data (fx_init fs) of
                  (cave_data', st) \<Rightarrow>
                    if total_corrected st > 0 then
                      (if writable then (Document cave_data', say Saved st)
                       else (json_file, say ErrorWriteFailed st))
                    else (json_file, say NothingToUpdate st)))"

section \<open>Schema conversion: \<^verbatim>\<open>convert.py\<close>\<close>

text \<open>
  A record of the old schema, with its keys \<^verbatim>\<open>cave_id\<close>, \<^verbatim>\<open>contributor_number\<close>,
  \<^verbatim>\<open>contributor_name\<close> and \<^verbatim>\<open>elements\<close>, and a record of the output document.
\<close>

record old_item =
  item_cave_id :: "jval option"
  item_contributor_number :: "jval option"
  item_contributor_name :: "jval option"
  item_elements :: "element list"

record new_item =
  new_elements :: "element list"
  new_channelId :: string
  new_userId :: jval
  new_userName :: jval
  new_status :: string
  new_time :: string

text \<open>
  What the user answers at the prompt: a line, or an interrupt. A closed input is the
  empty list: \<^verbatim>\<open>input\<close> raises \<^verbatim>\<open>EOFError\<close>, which nothing catches.
\<close>

datatype response = Line string | CtrlC

record 'fs cv_state = "'fs world" +
  user_channel_map :: "jval \<rightharpoonup> string"
  output_data :: "new_item list"
  stdin :: "response list"
  media_index_counter :: nat

text \<open>The f-string of line 91.\<close>

definition convert_filename :: "jval \<Rightarrow> nat \<Rightarrow> string \<Rightarrow> jval \<Rightarrow> string \<Rightarrow> string" where
  "convert_filename cave_id idx channel_id user_id extension =
     py_str cave_id @ ''_'' @ show_nat idx @ ''_'' @ channel_id @ ''_'' @ py_str user_id
       @ extension"

text \<open>
  The prompt of lines 65 to 68: lines are read until one is not empty.
\<close>

datatype prompted = Answer string | Interrupt | EndOfInput

fun read_channel_id :: "'fs cv_state \<Rightarrow> response list \<Rightarrow> prompted \<times> 'fs cv_state" where
  "read_channel_id st [] = (EndOfInput, st\<lparr>stdin := []\<rparr>)"
| "read_channel_id st (CtrlC # rs) = (Interrupt, st\<lparr>stdin := rs\<rparr>)"
| "read_channel_id st (Line l # rs) =
     (if l = [] then read_channel_id (say EmptyChannelId st) rs
      else (Answer l, st\<lparr>stdin := rs\<rparr>))"

text \<open>
  The two tests of lines 83 and 85 together: an image or video element with a
  \<^verbatim>\<open>file\<close> that is neither absent nor empty. These are the elements the conversion
  renames.
\<close>

definition convert_media :: "element \<Rightarrow> bool" where
  "convert_media element =
     ((etype element = Some ''image'' \<or> etype element = Some ''video'') \<and>
      (case efile element of None \<Rightarrow> False | Some f \<Rightarrow> f \<noteq> []))"

text \<open>
  The body of the loop over the elements of an item (lines 80 to 112). The new element
  is a copy; its \<^verbatim>\<open>file\<close> is set after the \<^verbatim>\<open>try\<close> block, whatever happened in it.
\<close>

definition convert_element ::
  "'fs os_api \<Rightarrow> path \<Rightarrow> jval \<Rightarrow> string \<Rightarrow> jval \<Rightarrow> element \<Rightarrow> 'fs cv_state
     \<Rightarrow> element \<times> 'fs cv_state" where
  "convert_element os resources_dir cave_id channel_id user_id element st =
     (if etype element = Some ''image'' \<or> etype element = Some ''video'' then
        (case efile element of
           None \<Rightarrow> (element, st)
         | Some original_filename \<Rightarrow>
             if original_filename = [] then (element, st)
             else
               let extension = snd (splitext original_filename);
                   new = convert_filename cave_id (media_index_counter st) channel_id user_id extension;
                   old_path = path_join resources_dir (basename original_filename);
                   new_path = path_join resources_dir new;
                   st1 = (if os_path_exists os (fsys st) old_path then
                            (case os_rename os (fsys st) old_path new_path of
                               Some fs' \<Rightarrow>
                                 (say (Renamed (basename old_path) new)
                                    (called_rename old_path new_path st))\<lparr>fsys := fs'\<rparr>
                             | None \<Rightarrow>
                                 say (ErrorFile (basename old_path))
                                   (called_rename old_path new_path st))
                          else say (SkippedMissing (basename original_filename)) st)
               in (element\<lparr>efile := Some new\<rparr>,
                   st1\<lparr>media_index_counter := media_index_counter st1 + 1\<rparr>))
      else (element, st))"

fun convert_elements ::
  "'fs os_api \<Rightarrow> path \<Rightarrow> jval \<Rightarrow> string \<Rightarrow> jval \<Rightarrow> element list \<Rightarrow> 'fs cv_state
     \<Rightarrow> element list \<times> 'fs cv_state" where
  "convert_elements os resources_dir cave_id channel_id user_id [] st = ([], st)"
| "convert_elements os resources_dir cave_id channel_id user_id (element # rest) st =
     (case convert_element os resources_dir cave_id channel_id user_id element st of
        (element', st') \<Rightarrow>
          (case convert_elements os resources_dir cave_id channel_id user_id rest st' of
             (rest', st'') \<Rightarrow> (element' # rest', st'')))"

text \<open>
  What follows the lookup of the channel (lines 74 to 123): the counter starts at 1, the
  elements are converted and the new item is appended. \<open>clock\<close> is the wall clock, read
  once per item written; it is indexed by the number of items written so far.
\<close>

definition convert_item_body ::
  "'fs os_api \<Rightarrow> path \<Rightarrow> (nat \<Rightarrow> string) \<Rightarrow> jval \<Rightarrow> jval \<Rightarrow> jval \<Rightarrow> string
     \<Rightarrow> element list \<Rightarrow> 'fs cv_state \<Rightarrow> 'fs cv_state" where
  "convert_item_body os resources_dir clock cave_id user_id user_name channel_id es st =
     (case convert_elements os resources_dir cave_id channel_id user_id es
             (st\<lparr>media_index_counter := 1\<rparr>) of
        (es', st') \<Rightarrow>
          st'\<lparr>output_data := output_data st' @
                 [\<lparr>new_elements = es', new_channelId = channel_id, new_userId = user_id,
                   new_userName = user_name, new_status = ''active'',
                   new_time = clock (length (output_data st'))\<rparr>]\<rparr>)"

text \<open>
  The loop over the items (lines 52 to 123). \<^verbatim>\<open>continue\<close> goes on with the rest,
  \<^verbatim>\<open>break\<close> ends the loop, and \<^verbatim>\<open>EOFError\<close> leaves the function.
\<close>

fun convert_items ::
  "'fs os_api \<Rightarrow> path \<Rightarrow> (nat \<Rightarrow> string) \<Rightarrow> old_item list \<Rightarrow> 'fs cv_state
     \<Rightarrow> crash option \<times> 'fs cv_state" where
  "convert_items os resources_dir clock [] st = (None, st)"
| "convert_items os resources_dir clock (item # rest) st =
     (let cave_id = dict_get (item_cave_id item) JNull;
          user_id = dict_get (item_contributor_number item) JNull;
          user_name = dict_get (item_contributor_name item) (JStr ''Unknown'')
      in if \<not> (truthy cave_id \<and> truthy user_id)
         then convert_items os resources_dir clock rest (say WarnSkippedRecord st)
         else
           (case user_channel_map st user_id of
              Some channel_id \<Rightarrow>
                convert_items os resources_dir clock rest
                  (convert_item_body os resources_dir clock cave_id user_id user_name
                     channel_id (item_elements item) st)
            | None \<Rightarrow>
                (case read_channel_id (say (NewUserPrompt user_id) st) (stdin st) of
                   (EndOfInput, st') \<Rightarrow> (Some EOFError, st')
                 | (Interrupt, st') \<Rightarrow> (None, say Interrupted st')
                 | (Answer channel_id, st') \<Rightarrow>
                     convert_items os resources_dir clock rest
                       (convert_item_body os resources_dir clock cave_id user_id user_name
                          channel_id (item_elements item)
                          (st'\<lparr>user_channel_map := (user_channel_map st')(user_id \<mapsto> channel_id)\<rparr>)))))"

text \<open>
  Two states of the conversion that agree on everything but the printed lines: the
  relation in which a run with a skipped record stands to the run without it.
\<close>

definition same_but_console :: "'fs cv_state \<Rightarrow> 'fs cv_state \<Rightarrow> bool" where
  "same_but_console s t =
     (fsys s = fsys t \<and> rename_calls s = rename_calls t
      \<and> user_channel_map s = user_channel_map t \<and> output_data s = output_data t
      \<and> stdin s = stdin t \<and> media_index_counter s = media_index_counter t)"

text \<open>
  \<^verbatim>\<open>convert_and_rename_files\<close>. \<open>mapping_file\<close> and \<open>input_file\<close> are what is
  stored at the two paths; an absent or unreadable mapping starts as the empty mapping.
  The result is the mapping and the document written at the end (if the function gets
  there), the exception that ends the process (if any), and the final state.
\<close>

definition cv_init :: "'fs \<Rightarrow> (jval \<rightharpoonup> string) \<Rightarrow> response list \<Rightarrow> 'fs cv_state" where
  "cv_init fs mapping answers =
     \<lparr>fsys = fs, rename_calls = [], console = [], user_channel_map = mapping,
      output_data = [], stdin = answers, media_index_counter = 1\<rparr>"

definition convert_and_rename_files ::
  "'fs os_api \<Rightarrow> old_item list stored \<Rightarrow> (jval \<rightharpoonup> string) stored \<Rightarrow> path
     \<Rightarrow> (nat \<Rightarrow> string) \<Rightarrow> response list \<Rightarrow> bool \<Rightarrow> 'fs
     \<Rightarrow> ((jval \<rightharpoonup> string) \<times> new_item list) option \<times> crash option \<times> 'fs cv_state" where
  "convert_and_rename_files os input_file mapping_file resources_dir clock answers writable fs =
     (let mapping = (case mapping_file of Document m \<Rightarrow> m | _ \<Rightarrow> Map.empty) in
      case (if os_path_exists os fs resources_dir then Some fs
            else os_makedirs os fs resources_dir) of
        None \<Rightarrow> (None, Some MakedirsError, cv_init fs mapping answers)
      | Some fs1 \<Rightarrow>
          (case input_file of
             Absent \<Rightarrow> (None, None, say (ErrorPath ''cave.json'') (cv_init fs1 mapping answers))
           | Garbage \<Rightarrow> (None, None, say ErrorInvalidJson (cv_init fs1 mapping answers))
           | Document data \<Rightarrow>
               (case convert_items os resources_dir clock data (cv_init fs1 mapping answers) of
                  (Some c, st) \<Rightarrow> (None, Some c, st)
                | (None, st) \<Rightarrow>
                    if writable then (Some (user_channel_map st, output_data st), None, say Saved st)
                    else (None, Some WriteError, st))))"

section \<open>A small file system to run the scripts on\<close>

text \<open>
  The theorems below hold for every operating system and detector. To evaluate the
  scripts on concrete inputs, this is a flat POSIX-like file system: regular files with
  their content, directories, and files that \<^verbatim>\<open>os.rename\<close> refuses to move.
  Renaming a file onto itself does nothing; renaming onto another file replaces it.
  The detector looks at the leading bytes, as \<^verbatim>\<open>filetype\<close> does.
\<close>

record sample_fs =
  files :: "(path \<times> string) list"
  dirs :: "path list"
  locked :: "path list"

definition jpeg_bytes :: string where
  "jpeg_bytes = [CHR 0xFF, CHR 0xD8, CHR 0xFF, CHR 0xE0]"

definition png_bytes :: string where
  "png_bytes = CHR 0x89 # ''PNG''"

definition sniff :: "string \<Rightarrow> guess" where
  "sniff content =
     (if take 3 content = take 3 jpeg_bytes then Kind ''jpg''
      else if take 4 content = png_bytes then Kind ''png''
      else if take 3 content = ''GIF'' then Kind ''gif''
      else NoKind)"

definition sample_rename :: "sample_fs \<Rightarrow> path \<Rightarrow> path \<Rightarrow> sample_fs option" where
  "sample_rename fs src dst =
     (if src \<notin> set (map fst (files fs)) \<or> src \<in> set (locked fs) \<or> dst \<in> set (dirs fs) then None
      else if src = dst then Some fs
      else Some (fs\<lparr>files := map (\<lambda>(p, c). if p = src then (dst, c) else (p, c))
                                  (filter (\<lambda>(p, c). p \<noteq> dst) (files fs))\<rparr>))"

definition sample_os :: "sample_fs os_api" where
  "sample_os =
     \<lparr>os_path_exists = (\<lambda>fs p. p \<in> set (map fst (files fs)) \<or> p \<in> set (dirs fs)),
      os_path_isdir = (\<lambda>fs p. p \<in> set (dirs fs)),
      os_rename = sample_rename,
      os_makedirs = (\<lambda>fs p. Some (fs\<lparr>dirs := p # dirs fs\<rparr>)),
      filetype_guess = (\<lambda>fs p. case map_of (files fs) p of
                                  None \<Rightarrow> GuessRaises | Some c \<Rightarrow> sniff c)\<rparr>"

text \<open>
  Sample documents: a cave with id 5 of channel \<open>c1\<close> and user \<open>u1\<close> and one with
  id 6 of channel \<open>c2\<close> and user \<open>u2\<close>, both created at 2023-01-01T00:00:00Z, with
  the given elements; an image element and a text element; a media directory
  \<^verbatim>\<open>cave\<close> holding JPEG files with the given names.
\<close>

definition cave5 :: "element list \<Rightarrow> cave" where
  "cave5 es = \<lparr>cid = Some (JInt 5), channelId = Some (JStr ''c1''), userId = Some (JStr ''u1''),
               time = Some ''2023-01-01T00:00:00Z'', elements = es\<rparr>"

definition meta5 :: meta where
  "meta5 = \<lparr>m_cave_id = JInt 5, m_channel_id = JStr ''c1'', m_user_id = JStr ''u1'',
            m_timestamp_ms = 1672531200000\<rparr>"

definition image_el :: "string \<Rightarrow> element" where
  "image_el f = \<lparr>etype = Some ''image'', efile = Some f, payload = []\<rparr>"

definition jpegs :: "string list \<Rightarrow> sample_fs" where
  "jpegs names = \<lparr>files = map (\<lambda>f. (''cave/'' @ f, jpeg_bytes)) names, dirs = [''cave''],
                  locked = []\<rparr>"

definition cave6 :: "element list \<Rightarrow> cave" where
  "cave6 es = \<lparr>cid = Some (JInt 6), channelId = Some (JStr ''c2''), userId = Some (JStr ''u2''),
               time = Some ''2023-01-01T00:00:00Z'', elements = es\<rparr>"

definition meta6 :: meta where
  "meta6 = \<lparr>m_cave_id = JInt 6, m_channel_id = JStr ''c2'', m_user_id = JStr ''u2'',
            m_timestamp_ms = 1672531200000\<rparr>"

definition text_el :: "string \<Rightarrow> element" where
  "text_el s = \<lparr>etype = Some ''text'', efile = None, payload = [(''content'', JStr s)]\<rparr>"

section \<open>Evaluating the helpers\<close>

lemma show_nat_example: "show_nat 1690000000000 = ''1690000000000''"
  by (simp add: show_nat.simps digit_char_def)

lemma splitext_example: "splitext ''a/b.c/photo.tar.JPG'' = (''a/b.c/photo.tar'', ''.JPG'')"
  by (simp add: splitext_def rfind_def)

lemma splitext_dots: "splitext ''...'' = (''...'', [])"
  by (simp add: splitext_def rfind_def)

lemma lower_example: "lower ''.JpG'' = ''.jpg''"
  by (simp add: lower_def lower_char_def)

text \<open>The timestamp of 2023-01-01T00:00:00Z, step by step.\<close>

lemma fromisoformat_2023:
  "fromisoformat ''2023-01-01T00:00:00+00:00'' =
     Inr \<lparr>year = 2023, month = Suc 0, day = Suc 0, hour = 0, minute = 0, second = 0,
          microsecond = 0, utcoffset = Some 0\<rparr>"
  by (simp add: fromisoformat_def parse_isoformat_date_def parse_isoformat_time_def
      parse_hh_mm_ss_ff_def parse_comps.simps parse_fraction_def parse_nat_def slice_def
      is_digit_def digit_val_def tz_pos_def find_plus1_def days_in_month_def is_leap_def Let_def)

lemma epoch_micros_2023:
  "epoch_micros \<lparr>year = 2023, month = Suc 0, day = Suc 0, hour = 0, minute = 0, second = 0,
                  microsecond = 0, utcoffset = Some 0\<rparr> 0 = 1672531200000000"
  by (simp add: epoch_micros_def ymd2ord_def days_before_year_def days_before_month_def
      is_leap_def Let_def)

lemma to_double_seconds_2023:
  "to_double 1672531200000000 1000000 = (7015104302284800, - 22)"
  by (simp add: to_double_def bit_length.simps rne_div_def Let_def)

lemma to_double_product_2023:
  "to_double 7015104302284800000 4194304 = (6850687795200000, - 12)"
  by (simp add: to_double_def bit_length.simps rne_div_def Let_def)

lemma micros_to_ms_2023: "micros_to_ms 1672531200000000 = 1672531200000"
proof -
  have "double_mul (7015104302284800, - 22) 1000 = (6850687795200000, - 12)"
    by (simp add: double_mul_def to_double_product_2023)
  moreover have "double_trunc (6850687795200000, - 12) = 1672531200000"
    by (simp add: double_trunc_def)
  ultimately show ?thesis
    by (simp add: micros_to_ms_def to_double_seconds_2023)
qed

lemma timestamp_2023: "convert_iso_to_ms_timestamp ''2023-01-01T00:00:00Z'' = Inr 1672531200000"
  by (simp add: convert_iso_to_ms_timestamp_def fromisoformat_2023 epoch_micros_2023
      micros_to_ms_2023)

section \<open>Full reindex: the steps of the loops\<close>

text \<open>The four ways through the body of the element loop.\<close>

lemma rename_element_other:
  "\<not> is_media_element e \<Longrightarrow> rename_element os b m e st = (None, e, st)"
  by (simp add: rename_element_def split: option.splits)

lemma rename_element_missing:
  assumes "is_media_element e" and "efile e = Some f"
    and "\<not> os_path_exists os (fsys st) (path_join b f)"
  shows "rename_element os b m e st =
           (None, e, st\<lparr>console := console st @ [SkippedMissing f],
                           total_skipped := total_skipped st + 1,
                           media_index := Suc (media_index st)\<rparr>)"
  using assms by (simp add: rename_element_def Let_def say_def)

lemma rename_element_failed:
  assumes "is_media_element e" and "efile e = Some f"
    and "os_path_exists os (fsys st) (path_join b f)"
    and "os_rename os (fsys st) (path_join b f)
           (path_join b (new_filename m (Suc (media_index st)) (snd (splitext f)))) = None"
  shows "rename_element os b m e st =
           (Some OSError, e,
            st\<lparr>rename_calls := rename_calls st @
                    [(path_join b f,
                      path_join b (new_filename m (Suc (media_index st)) (snd (splitext f))))],
                media_index := Suc (media_index st)\<rparr>)"
  using assms by (simp add: rename_element_def Let_def called_rename_def)

lemma rename_element_renamed:
  assumes "is_media_element e" and "efile e = Some f"
    and "os_path_exists os (fsys st) (path_join b f)"
    and "os_rename os (fsys st) (path_join b f)
           (path_join b (new_filename m (Suc (media_index st)) (snd (splitext f)))) = Some fs'"
  shows "rename_element os b m e st =
           (None, e\<lparr>efile := Some (new_filename m (Suc (media_index st)) (snd (splitext f)))\<rparr>,
            st\<lparr>fsys := fs',
                rename_calls := rename_calls st @
                    [(path_join b f,
                      path_join b (new_filename m (Suc (media_index st)) (snd (splitext f))))],
                console := console st @
                    [Renamed f (new_filename m (Suc (media_index st)) (snd (splitext f)))],
                total_renamed := total_renamed st + 1,
                media_index := Suc (media_index st),
                entry_updated := True\<rparr>)"
  using assms by (simp add: rename_element_def Let_def called_rename_def say_def)

section \<open>Claim C8: the timestamp and the run on the sample document\<close>

lemma path_join_cave: "f = [] \<or> hd f \<noteq> CHR ''/'' \<Longrightarrow> path_join ''cave'' f = ''cave/'' @ f"
  by (auto simp add: path_join_def)

lemma sample_rename_single:
  "os_rename sample_os (jpegs [f]) (''cave/'' @ f) (''cave/'' @ g) = Some (jpegs [g])"
  by (simp add: sample_os_def sample_rename_def jpegs_def)

lemma sample_exists_single: "os_path_exists sample_os (jpegs [f]) (''cave/'' @ f)"
  by (simp add: sample_os_def jpegs_def)

lemma sample_isdir: "os_path_isdir sample_os (jpegs fs) ''cave''"
  by (simp add: sample_os_def jpegs_def)

lemma new_filename_meta5:
  "new_filename meta5 (Suc 0) ''.jpg'' = ''5-1_c1-u1_1672531200000.jpg''"
  by (simp add: new_filename_def meta5_def show_int_def show_nat.simps digit_char_def)

lemma is_media_image: "is_media_element (image_el f)"
  by (simp add: is_media_element_def image_el_def media_types_def)

lemma rename_cave_valid:
  assumes "cid cave = Some i" and "time cave = Some t"
    and "convert_iso_to_ms_timestamp t = Inr ts"
  shows "rename_cave os b cave st =
     (case rename_elements os b
             \<lparr>m_cave_id = i, m_channel_id = dict_get (channelId cave) (JStr ''unknown''),
              m_user_id = dict_get (userId cave) (JStr ''unknown''), m_timestamp_ms = ts\<rparr>
             (elements cave) (st\<lparr>media_index := 0, entry_updated := False\<rparr>) of
        (Some e, es, st') \<Rightarrow> (cave\<lparr>elements := es\<rparr>, say (ErrorEntry (cid cave) e) st')
      | (None, es, st') \<Rightarrow>
          (cave\<lparr>elements := es\<rparr>,
           if entry_updated st' then st'\<lparr>updated_json_entries := updated_json_entries st' + 1\<rparr>
           else st'))"
  using assms by (simp add: rename_cave_def Let_def)

lemma rename_cave5:
  "rename_cave sample_os ''cave'' (cave5 es) st =
     (case rename_elements sample_os ''cave'' meta5 es (st\<lparr>media_index := 0, entry_updated := False\<rparr>) of
        (Some e, es', st') \<Rightarrow> (cave5 es', say (ErrorEntry (Some (JInt 5)) e) st')
      | (None, es', st') \<Rightarrow>
          (cave5 es',
           if entry_updated st' then st'\<lparr>updated_json_entries := updated_json_entries st' + 1\<rparr>
           else st'))"
  by (simp add: rename_cave_valid[where i = "JInt 5" and t = "''2023-01-01T00:00:00Z''" and ts = 1672531200000]
      timestamp_2023 cave5_def meta5_def dict_get_def split: prod.splits option.splits)

lemma sample_cave_run:
  assumes "snd (splitext f) = ''.jpg''" and "f = [] \<or> hd f \<noteq> CHR ''/''"
  shows "rename_cave sample_os ''cave'' (cave5 [image_el f]) (rn_init (jpegs [f])) =
     (cave5 [image_el ''5-1_c1-u1_1672531200000.jpg''],
      \<lparr>fsys = jpegs [''5-1_c1-u1_1672531200000.jpg''],
       rename_calls = [(''cave/'' @ f, ''cave/5-1_c1-u1_1672531200000.jpg'')],
       console = [Renamed f ''5-1_c1-u1_1672531200000.jpg''],
       total_skipped = 0, total_renamed = 1, updated_json_entries = 1, media_index = 1,
       entry_updated = True\<rparr>)"
proof -
  let ?st = "(rn_init (jpegs [f]))\<lparr>media_index := 0, entry_updated := False\<rparr>"
  let ?new = "''5-1_c1-u1_1672531200000.jpg''"
  have nf: "new_filename meta5 (Suc (media_index ?st)) (snd (splitext f)) = ?new"
    by (simp add: assms rn_init_def new_filename_meta5)
  have el: "rename_element sample_os ''cave'' meta5 (image_el f) ?st =
     (None, (image_el f)\<lparr>efile := Some ?new\<rparr>,
      ?st\<lparr>fsys := jpegs [?new],
          rename_calls := rename_calls ?st @ [(path_join ''cave'' f, path_join ''cave'' ?new)],
          console := console ?st @ [Renamed f ?new],
          total_renamed := total_renamed ?st + 1, media_index := Suc (media_index ?st),
          entry_updated := True\<rparr>)"
  proof -
    have ef: "efile (image_el f) = Some f"
      by (simp add: image_el_def)
    have ex: "os_path_exists sample_os (fsys ?st) (path_join ''cave'' f)"
      using sample_exists_single[of f] by (simp add: path_join_cave assms rn_init_def)
    have rn: "os_rename sample_os (fsys ?st) (path_join ''cave'' f)
           (path_join ''cave'' (new_filename meta5 (Suc (media_index ?st)) (snd (splitext f))))
           = Some (jpegs [?new])"
      unfolding nf using sample_rename_single[of f ?new]
      by (simp add: path_join_cave assms rn_init_def)
    show ?thesis
      using rename_element_renamed[OF is_media_image ef ex rn] unfolding nf by simp
  qed
  show ?thesis
    unfolding rename_cave5 using el
    by (simp add: rn_init_def path_join_cave assms image_el_def)
qed

lemma splitext_photo: "snd (splitext ''photo.jpg'') = ''.jpg''"
  by (simp add: splitext_def rfind_def)

lemma splitext_new5: "snd (splitext ''5-1_c1-u1_1672531200000.jpg'') = ''.jpg''"
  by (simp add: splitext_def rfind_def)

text \<open>
  Claim C8. The creation-time conversion maps the ISO-8601 UTC string
  \<^verbatim>\<open>2023-01-01T00:00:00Z\<close> to the integer 1672531200000, and the full reindex of a
  document with one record (id 5, channel \<open>c1\<close>, user \<open>u1\<close>, that creation time) and
  one image attachment \<^verbatim>\<open>photo.jpg\<close> that exists in the media directory makes the
  attachment reference \<^verbatim>\<open>5-1_c1-u1_1672531200000.jpg\<close>, renames the file accordingly
  and writes the output document.
\<close>

theorem C8_timestamp_and_end_to_end:
  "convert_iso_to_ms_timestamp ''2023-01-01T00:00:00Z'' = Inr 1672531200000 \<and>
   reindex_main sample_os (Document [cave5 [image_el ''photo.jpg'']]) ''cave'' True (jpegs [''photo.jpg'']) =
     (Some [cave5 [image_el ''5-1_c1-u1_1672531200000.jpg'']], None,
      \<lparr>fsys = jpegs [''5-1_c1-u1_1672531200000.jpg''],
       rename_calls = [(''cave/photo.jpg'', ''cave/5-1_c1-u1_1672531200000.jpg'')],
       console = [Renamed ''photo.jpg'' ''5-1_c1-u1_1672531200000.jpg'', Saved],
       total_skipped = 0, total_renamed = 1, updated_json_entries = 1, media_index = 1,
       entry_updated = True\<rparr>)"
  using sample_cave_run[of "''photo.jpg''"]
  by (simp add: timestamp_2023 reindex_main_def rename_files_and_update_json_def sample_isdir
      splitext_photo say_def)

section \<open>Claim C4: the canonical filename\<close>

text \<open>
  Claim C4. In the full reindex, for every record and every file-bearing attachment whose
  file exists, the name computed for it (the destination of the rename, and on success the
  new filename field) is \<open>{recordId}-{attachmentIndex}_{channelId}-{userId}_{timestampMs}{extension}\<close>,
  where the index is the counter after its increment and the extension is that of the
  current filename; for record id 42, index 1, channel 7, user 99, timestamp 1690000000000
  and extension \<^verbatim>\<open>.png\<close> the name is \<^verbatim>\<open>42-1_7-99_1690000000000.png\<close>.
\<close>

theorem C4_canonical_filename:
  assumes "is_media_element e" and "efile e = Some f"
    and "os_path_exists os (fsys st) (path_join b f)"
    and "target = py_str (m_cave_id m) @ ''-'' @ show_nat (media_index st + 1) @ ''_''
                  @ py_str (m_channel_id m) @ ''-'' @ py_str (m_user_id m) @ ''_''
                  @ show_int (m_timestamp_ms m) @ snd (splitext f)"
  shows "rename_calls (snd (snd (rename_element os b m e st))) =
           rename_calls st @ [(path_join b f, path_join b target)]
         \<and> (os_rename os (fsys st) (path_join b f) (path_join b target) \<noteq> None \<longrightarrow>
              efile (fst (snd (rename_element os b m e st))) = Some target)
         \<and> new_filename \<lparr>m_cave_id = JInt 42, m_channel_id = JStr ''7'', m_user_id = JStr ''99'',
                          m_timestamp_ms = 1690000000000\<rparr> 1 ''.png''
             = ''42-1_7-99_1690000000000.png''"
proof -
  have t: "target = new_filename m (Suc (media_index st)) (snd (splitext f))"
    using assms(4) by (simp add: new_filename_def)
  have calls: "rename_calls (snd (snd (rename_element os b m e st))) =
           rename_calls st @ [(path_join b f, path_join b target)]"
  proof (cases "os_rename os (fsys st) (path_join b f) (path_join b target)")
    case None
    then show ?thesis
      using rename_element_failed[OF assms(1,2,3), of m] by (simp add: t)
  next
    case (Some fs')
    then show ?thesis
      using rename_element_renamed[OF assms(1,2,3), of m fs'] by (simp add: t)
  qed
  have field: "efile (fst (snd (rename_element os b m e st))) = Some target"
    if "os_rename os (fsys st) (path_join b f) (path_join b target) \<noteq> None"
  proof -
    from that obtain fs' where
      "os_rename os (fsys st) (path_join b f) (path_join b target) = Some fs'"
      by auto
    then show ?thesis
      using rename_element_renamed[OF assms(1,2,3), of m fs'] by (simp add: t)
  qed
  have example: "new_filename \<lparr>m_cave_id = JInt 42, m_channel_id = JStr ''7'', m_user_id = JStr ''99'',
                          m_timestamp_ms = 1690000000000\<rparr> 1 ''.png''
             = ''42-1_7-99_1690000000000.png''"
    by (simp add: new_filename_def show_int_def show_nat.simps digit_char_def)
  from calls field example show ?thesis by blast
qed

theorem C4_canonical_filename_witness:
  "rename_calls (snd (snd (rename_element sample_os ''cave''
       \<lparr>m_cave_id = JInt 42, m_channel_id = JStr ''7'', m_user_id = JStr ''99'',
        m_timestamp_ms = 1690000000000\<rparr> (image_el ''a.png'') (rn_init (jpegs [''a.png''])))))
     = [(''cave/a.png'', ''cave/42-1_7-99_1690000000000.png'')]
   \<and> efile (fst (snd (rename_element sample_os ''cave''
       \<lparr>m_cave_id = JInt 42, m_channel_id = JStr ''7'', m_user_id = JStr ''99'',
        m_timestamp_ms = 1690000000000\<rparr> (image_el ''a.png'') (rn_init (jpegs [''a.png''])))))
     = Some ''42-1_7-99_1690000000000.png''"
proof -
  let ?m = "\<lparr>m_cave_id = JInt 42, m_channel_id = JStr ''7'', m_user_id = JStr ''99'',
        m_timestamp_ms = 1690000000000\<rparr>"
  let ?st = "rn_init (jpegs [''a.png''])"
  let ?t = "''42-1_7-99_1690000000000.png''"
  have pj: "path_join ''cave'' ''a.png'' = ''cave/a.png''" "path_join ''cave'' ?t = ''cave/'' @ ?t"
    by (simp_all add: path_join_def)
  have ef: "efile (image_el ''a.png'') = Some ''a.png''"
    by (simp add: image_el_def)
  have ex: "os_path_exists sample_os (fsys ?st) (path_join ''cave'' ''a.png'')"
    using sample_exists_single[of "''a.png''"] by (simp add: pj rn_init_def)
  have sp: "snd (splitext ''a.png'') = ''.png''"
    by (simp add: splitext_def rfind_def)
  have tg: "?t = py_str (m_cave_id ?m) @ ''-'' @ show_nat (media_index ?st + 1) @ ''_''
                  @ py_str (m_channel_id ?m) @ ''-'' @ py_str (m_user_id ?m) @ ''_''
                  @ show_int (m_timestamp_ms ?m) @ snd (splitext ''a.png'')"
    by (simp add: sp rn_init_def show_int_def show_nat.simps digit_char_def)
  have rn: "os_rename sample_os (fsys ?st) (path_join ''cave'' ''a.png'') (path_join ''cave'' ?t) \<noteq> None"
    using sample_rename_single[of "''a.png''" ?t] by (simp add: pj rn_init_def)
  show ?thesis
    using C4_canonical_filename[OF is_media_image ef ex tg] rn
    by (simp add: pj rn_init_def)
qed

section \<open>Full reindex: the index counter\<close>

lemma rename_elements_no_media:
  "\<forall>e\<in>set es. \<not> is_media_element e \<Longrightarrow> rename_elements os b m es st = (None, es, st)"
  by (induction es arbitrary: st) (simp_all add: rename_element_other)

lemma rename_elements_single:
  assumes "\<forall>x\<in>set pre. \<not> is_media_element x" and "\<forall>x\<in>set post. \<not> is_media_element x"
  shows "rename_elements os b m (pre @ e # post) st =
           (case rename_element os b m e st of (x, e', st') \<Rightarrow> (x, pre @ e' # post, st'))"
  using assms(1)
proof (induction pre arbitrary: st)
  case Nil
  show ?case
    by (simp add: rename_elements_no_media[OF assms(2)] split: prod.splits option.splits)
next
  case (Cons a pre)
  then show ?case
    by (simp add: rename_element_other split: prod.splits option.splits)
qed

lemma rename_element_index:
  "rename_element os b m e st = (x, e', st') \<Longrightarrow>
     media_index st' = media_index st + (if is_media_element e then 1 else 0)"
  by (auto simp add: rename_element_def Let_def say_def called_rename_def is_media_element_def
      split: option.splits if_splits)

lemma rename_elements_index:
  "rename_elements os b m es st = (None, es', st') \<Longrightarrow>
     media_index st' = media_index st + length (filter is_media_element es)"
proof (induction es arbitrary: st es' st')
  case Nil
  then show ?case by simp
next
  case (Cons e es)
  obtain x e1 st1 where el: "rename_element os b m e st = (x, e1, st1)"
    by (cases "rename_element os b m e st") auto
  with Cons.prems have x: "x = None"
    by (cases x) auto
  obtain y es2 st2 where rest: "rename_elements os b m es st1 = (y, es2, st2)"
    by (cases "rename_elements os b m es st1") auto
  with Cons.prems el x have "y = None" "st2 = st'"
    by auto
  with Cons.IH[of st1 es2 st2] rest rename_element_index[OF el]
  show ?case by simp
qed

text \<open>
  A valid cave whose only media element is \<open>e\<close>, with an existing file: the one call of
  \<^verbatim>\<open>os.rename\<close> has the name with index 1 as its destination, whatever the state.
\<close>

lemma rename_cave_single:
  assumes "cid cave = Some i" and "time cave = Some t"
    and "convert_iso_to_ms_timestamp t = Inr ts"
    and "elements cave = pre @ e # post"
    and "\<forall>x\<in>set pre. \<not> is_media_element x" and "\<forall>x\<in>set post. \<not> is_media_element x"
    and "is_media_element e" and "efile e = Some f"
    and "os_path_exists os (fsys st) (path_join b f)"
    and "m = \<lparr>m_cave_id = i, m_channel_id = dict_get (channelId cave) (JStr ''unknown''),
              m_user_id = dict_get (userId cave) (JStr ''unknown''), m_timestamp_ms = ts\<rparr>"
  shows "rename_calls (snd (rename_cave os b cave st)) =
           rename_calls st @ [(path_join b f, path_join b (new_filename m 1 (snd (splitext f))))]"
proof -
  let ?st0 = "st\<lparr>media_index := 0, entry_updated := False\<rparr>"
  let ?dst = "path_join b (new_filename m (Suc (media_index ?st0)) (snd (splitext f)))"
  have ex: "os_path_exists os (fsys ?st0) (path_join b f)"
    using assms(9) by simp
  have "rename_calls (snd (snd (rename_element os b m e ?st0))) =
          rename_calls st @ [(path_join b f, ?dst)]"
  proof (cases "os_rename os (fsys ?st0) (path_join b f) ?dst")
    case None
    then show ?thesis
      using rename_element_failed[OF assms(7,8) ex, of m] by simp
  next
    case (Some fs')
    then show ?thesis
      using rename_element_renamed[OF assms(7,8) ex, of m fs'] by simp
  qed
  then show ?thesis
    unfolding rename_cave_valid[OF assms(1,2,3)] assms(4) assms(10)[symmetric]
      rename_elements_single[OF assms(5,6)]
    by (auto simp add: say_def split: prod.splits option.splits)
qed

lemma rename_cave_no_media:
  assumes "\<forall>e\<in>set (elements cave). \<not> is_media_element e"
  shows "fst (rename_cave os b cave st) = cave
         \<and> rename_calls (snd (rename_cave os b cave st)) = rename_calls st
         \<and> fsys (snd (rename_cave os b cave st)) = fsys st"
  by (simp add: rename_cave_def Let_def say_def rename_elements_no_media[OF assms]
      split: option.splits sum.splits)

section \<open>Schema conversion: the steps of the loops\<close>

lemma convert_element_other:
  "\<not> convert_media e \<Longrightarrow> convert_element os d c ch u e st = (e, st)"
  by (auto simp add: convert_element_def convert_media_def split: option.splits)

lemma convert_element_named:
  assumes "convert_media e" and "efile e = Some f"
  shows "fst (convert_element os d c ch u e st) =
           e\<lparr>efile := Some (convert_filename c (media_index_counter st) ch u (snd (splitext f)))\<rparr>"
    and "media_index_counter (snd (convert_element os d c ch u e st)) = Suc (media_index_counter st)"
  using assms
  by (auto simp add: convert_element_def convert_media_def Let_def say_def called_rename_def
      split: option.splits)

lemma convert_elements_no_media:
  "\<forall>e\<in>set es. \<not> convert_media e \<Longrightarrow> convert_elements os d c ch u es st = (es, st)"
  by (induction es arbitrary: st) (simp_all add: convert_element_other)

lemma convert_elements_single:
  assumes "\<forall>x\<in>set pre. \<not> convert_media x" and "\<forall>x\<in>set post. \<not> convert_media x"
  shows "convert_elements os d c ch u (pre @ e # post) st =
           (case convert_element os d c ch u e st of (e', st') \<Rightarrow> (pre @ e' # post, st'))"
  using assms(1)
proof (induction pre arbitrary: st)
  case Nil
  show ?case
    by (simp add: convert_elements_no_media[OF assms(2)] split: prod.splits)
next
  case (Cons a pre)
  then show ?case
    by (simp add: convert_element_other split: prod.splits)
qed

lemma convert_elements_counter:
  "media_index_counter (snd (convert_elements os d c ch u es st)) =
     media_index_counter st + length (filter convert_media es)"
proof (induction es arbitrary: st)
  case Nil
  then show ?case by simp
next
  case (Cons e es)
  obtain e1 st1 where el: "convert_element os d c ch u e st = (e1, st1)"
    by (cases "convert_element os d c ch u e st") auto
  have "media_index_counter st1 = media_index_counter st + (if convert_media e then 1 else 0)"
  proof (cases "convert_media e")
    case True
    then obtain f where "efile e = Some f"
      by (auto simp add: convert_media_def split: option.splits)
    from convert_element_named(2)[OF True this, of os d c ch u st] el True
    show ?thesis by simp
  next
    case False
    with convert_element_other[OF False, of os d c ch u st] el show ?thesis by simp
  qed
  with Cons.IH[of st1] el show ?case
    by (auto split: prod.splits)
qed

lemma convert_item_body_single:
  assumes "\<forall>x\<in>set pre. \<not> convert_media x" and "\<forall>x\<in>set post. \<not> convert_media x"
    and "convert_media e" and "efile e = Some f"
  shows "new_elements (last (output_data (convert_item_body os d clock c u n ch (pre @ e # post) st)))
           = pre @ e\<lparr>efile := Some (convert_filename c 1 ch u (snd (splitext f)))\<rparr> # post"
proof -
  let ?st1 = "st\<lparr>media_index_counter := 1\<rparr>"
  obtain e' st' where el: "convert_element os d c ch u e ?st1 = (e', st')"
    by (cases "convert_element os d c ch u e ?st1") auto
  have "e' = e\<lparr>efile := Some (convert_filename c 1 ch u (snd (splitext f)))\<rparr>"
    using convert_element_named(1)[OF assms(3,4), of os d c ch u ?st1] el by simp
  with el show ?thesis
    by (simp add: convert_item_body_def convert_elements_single[OF assms(1,2)])
qed

lemma convert_element_fs_calls:
  "\<not> convert_media e \<Longrightarrow>
     rename_calls (snd (convert_element os d c ch u e st)) = rename_calls st"
  by (simp add: convert_element_other)

lemma convert_item_body_no_media:
  assumes "\<forall>e\<in>set es. \<not> convert_media e"
  shows "new_elements (last (output_data (convert_item_body os d clock c u n ch es st))) = es
         \<and> rename_calls (convert_item_body os d clock c u n ch es st) = rename_calls st
         \<and> fsys (convert_item_body os d clock c u n ch es st) = fsys st"
  by (simp add: convert_item_body_def convert_elements_no_media[OF assms])

section \<open>Full reindex: a cave with one media element\<close>

lemma rename_cave_single_renamed:
  assumes "cid cave = Some i" and "time cave = Some t"
    and "convert_iso_to_ms_timestamp t = Inr ts"
    and "elements cave = pre @ e # post"
    and "\<forall>x\<in>set pre. \<not> is_media_element x" and "\<forall>x\<in>set post. \<not> is_media_element x"
    and "is_media_element e" and "efile e = Some f"
    and "os_path_exists os (fsys st) (path_join b f)"
    and "m = \<lparr>m_cave_id = i, m_channel_id = dict_get (channelId cave) (JStr ''unknown''),
              m_user_id = dict_get (userId cave) (JStr ''unknown''), m_timestamp_ms = ts\<rparr>"
    and "new = new_filename m (Suc 0) (snd (splitext f))"
    and "os_rename os (fsys st) (path_join b f) (path_join b new) = Some fs'"
  shows "rename_cave os b cave st =
           (cave\<lparr>elements := pre @ e\<lparr>efile := Some new\<rparr> # post\<rparr>,
            st\<lparr>fsys := fs',
                rename_calls := rename_calls st @ [(path_join b f, path_join b new)],
                console := console st @ [Renamed f new],
                total_renamed := total_renamed st + 1,
                updated_json_entries := updated_json_entries st + 1,
                media_index := Suc 0, entry_updated := True\<rparr>)"
proof -
  let ?st0 = "st\<lparr>media_index := 0, entry_updated := False\<rparr>"
  have ex: "os_path_exists os (fsys ?st0) (path_join b f)"
    using assms(9) by simp
  have rn: "os_rename os (fsys ?st0) (path_join b f)
           (path_join b (new_filename m (Suc (media_index ?st0)) (snd (splitext f)))) = Some fs'"
    using assms(11,12) by simp
  show ?thesis
    unfolding rename_cave_valid[OF assms(1,2,3)] assms(4) assms(10)[symmetric]
      rename_elements_single[OF assms(5,6)] rename_element_renamed[OF assms(7,8) ex rn]
    by (simp add: assms(11))
qed

lemma rename_cave_single_missing:
  assumes "cid cave = Some i" and "time cave = Some t"
    and "convert_iso_to_ms_timestamp t = Inr ts"
    and "elements cave = pre @ e # post"
    and "\<forall>x\<in>set pre. \<not> is_media_element x" and "\<forall>x\<in>set post. \<not> is_media_element x"
    and "is_media_element e" and "efile e = Some f"
    and "\<not> os_path_exists os (fsys st) (path_join b f)"
  shows "rename_cave os b cave st =
           (cave,
            st\<lparr>console := console st @ [SkippedMissing f],
                total_skipped := total_skipped st + 1,
                media_index := Suc 0, entry_updated := False\<rparr>)"
proof -
  let ?st0 = "st\<lparr>media_index := 0, entry_updated := False\<rparr>"
  have ex: "\<not> os_path_exists os (fsys ?st0) (path_join b f)"
    using assms(9) by simp
  have "cave\<lparr>elements := pre @ e # post\<rparr> = cave"
    using assms(4) by simp
  then show ?thesis
    unfolding rename_cave_valid[OF assms(1,2,3)] assms(4)
      rename_elements_single[OF assms(5,6)] rename_element_missing[OF assms(7,8) ex]
    by simp
qed

lemma rename_caves_append:
  "rename_caves os b (xs @ ys) st =
     (case rename_caves os b xs st of
        (xs', st') \<Rightarrow> (case rename_caves os b ys st' of (ys', st'') \<Rightarrow> (xs' @ ys', st'')))"
  by (induction xs arbitrary: st) (simp_all split: prod.splits)

section \<open>Claim C7: the attachment index\<close>

text \<open>
  Claim C7. The attachment index is reset at the start of each record and incremented only
  for attachments that carry a file reference. In the full reindex: an element without a
  \<^verbatim>\<open>file\<close> key leaves the counter and everything else as it is; after the loop over
  the elements the counter has grown by the number of file-bearing elements; every valid
  record whose only file-bearing element has an existing file calls \<^verbatim>\<open>os.rename\<close>
  once, with the name of index 1 as destination, whatever state the earlier records left
  (so two records with one file-bearing attachment each both get index 1); a record with
  no file-bearing element makes no call and keeps document and file system. In the schema
  conversion: an element that is not an image or video with a file is copied as it is; the
  counter grows by the number of converted elements; the only converted element of an
  item gets the name of index 1; an item with none makes no call.
\<close>

theorem C7_index_counter_per_record:
  "(efile e = None \<longrightarrow> rename_element os b m e st = (None, e, st))
   \<and> (rename_elements os b m es st = (None, es', st') \<longrightarrow>
        media_index st' = media_index st + length (filter is_media_element es))
   \<and> (cid cave = Some i \<and> time cave = Some t \<and> convert_iso_to_ms_timestamp t = Inr ts
        \<and> elements cave = pre @ x # post
        \<and> (\<forall>y\<in>set pre. \<not> is_media_element y) \<and> (\<forall>y\<in>set post. \<not> is_media_element y)
        \<and> is_media_element x \<and> efile x = Some f
        \<and> os_path_exists os (fsys st) (path_join b f) \<longrightarrow>
        rename_calls (snd (rename_cave os b cave st)) =
          rename_calls st @
            [(path_join b f,
              path_join b
                (new_filename
                   \<lparr>m_cave_id = i, m_channel_id = dict_get (channelId cave) (JStr ''unknown''),
                    m_user_id = dict_get (userId cave) (JStr ''unknown''), m_timestamp_ms = ts\<rparr>
                   1 (snd (splitext f))))])
   \<and> ((\<forall>y\<in>set (elements cave). \<not> is_media_element y) \<longrightarrow>
        fst (rename_cave os b cave st) = cave
        \<and> rename_calls (snd (rename_cave os b cave st)) = rename_calls st
        \<and> fsys (snd (rename_cave os b cave st)) = fsys st)
   \<and> (\<not> convert_media e \<longrightarrow> convert_element os d c ch u e cst = (e, cst))
   \<and> media_index_counter (snd (convert_elements os d c ch u es cst)) =
        media_index_counter cst + length (filter convert_media es)
   \<and> ((\<forall>y\<in>set pre. \<not> convert_media y) \<and> (\<forall>y\<in>set post. \<not> convert_media y)
        \<and> convert_media x \<and> efile x = Some f \<longrightarrow>
        new_elements (last (output_data
            (convert_item_body os d clock c u n ch (pre @ x # post) cst))) =
          pre @ x\<lparr>efile := Some (convert_filename c 1 ch u (snd (splitext f)))\<rparr> # post)
   \<and> ((\<forall>y\<in>set es. \<not> convert_media y) \<longrightarrow>
        rename_calls (convert_item_body os d clock c u n ch es cst) = rename_calls cst)"
proof -
  have p1: "efile e = None \<longrightarrow> rename_element os b m e st = (None, e, st)"
    by (simp add: rename_element_other is_media_element_def)
  have p2: "rename_elements os b m es st = (None, es', st') \<longrightarrow>
        media_index st' = media_index st + length (filter is_media_element es)"
    using rename_elements_index by blast
  have p3: "cid cave = Some i \<and> time cave = Some t \<and> convert_iso_to_ms_timestamp t = Inr ts
        \<and> elements cave = pre @ x # post
        \<and> (\<forall>y\<in>set pre. \<not> is_media_element y) \<and> (\<forall>y\<in>set post. \<not> is_media_element y)
        \<and> is_media_element x \<and> efile x = Some f
        \<and> os_path_exists os (fsys st) (path_join b f) \<longrightarrow>
        rename_calls (snd (rename_cave os b cave st)) =
          rename_calls st @
            [(path_join b f,
              path_join b
                (new_filename
                   \<lparr>m_cave_id = i, m_channel_id = dict_get (channelId cave) (JStr ''unknown''),
                    m_user_id = dict_get (userId cave) (JStr ''unknown''), m_timestamp_ms = ts\<rparr>
                   1 (snd (splitext f))))]"
    using rename_cave_single[where cave = cave and os = os and st = st and b = b] by blast
  have p4: "(\<forall>y\<in>set (elements cave). \<not> is_media_element y) \<longrightarrow>
        fst (rename_cave os b cave st) = cave
        \<and> rename_calls (snd (rename_cave os b cave st)) = rename_calls st
        \<and> fsys (snd (rename_cave os b cave st)) = fsys st"
    using rename_cave_no_media by blast
  have p5: "\<not> convert_media e \<longrightarrow> convert_element os d c ch u e cst = (e, cst)"
    by (simp add: convert_element_other)
  have p6: "media_index_counter (snd (convert_elements os d c ch u es cst)) =
        media_index_counter cst + length (filter convert_media es)"
    by (rule convert_elements_counter)
  have p7: "(\<forall>y\<in>set pre. \<not> convert_media y) \<and> (\<forall>y\<in>set post. \<not> convert_media y)
        \<and> convert_media x \<and> efile x = Some f \<longrightarrow>
        new_elements (last (output_data
            (convert_item_body os d clock c u n ch (pre @ x # post) cst))) =
          pre @ x\<lparr>efile := Some (convert_filename c 1 ch u (snd (splitext f)))\<rparr> # post"
    using convert_item_body_single by blast
  have p8: "(\<forall>y\<in>set es. \<not> convert_media y) \<longrightarrow>
        rename_calls (convert_item_body os d clock c u n ch es cst) = rename_calls cst"
    using convert_item_body_no_media by blast
  show ?thesis
    by (intro conjI p1 p2 p3 p4 p5 p6 p7 p8)
qed


lemma cave5_fields:
  "cid (cave5 es) = Some (JInt 5)" "time (cave5 es) = Some ''2023-01-01T00:00:00Z''"
  "elements (cave5 es) = es"
  "meta5 = \<lparr>m_cave_id = JInt 5, m_channel_id = dict_get (channelId (cave5 es)) (JStr ''unknown''),
            m_user_id = dict_get (userId (cave5 es)) (JStr ''unknown''),
            m_timestamp_ms = 1672531200000\<rparr>"
  "(cave5 es)\<lparr>elements := es'\<rparr> = cave5 es'"
  by (simp_all add: cave5_def meta5_def dict_get_def)

lemma cave6_fields:
  "cid (cave6 es) = Some (JInt 6)" "time (cave6 es) = Some ''2023-01-01T00:00:00Z''"
  "elements (cave6 es) = es"
  "meta6 = \<lparr>m_cave_id = JInt 6, m_channel_id = dict_get (channelId (cave6 es)) (JStr ''unknown''),
            m_user_id = dict_get (userId (cave6 es)) (JStr ''unknown''),
            m_timestamp_ms = 1672531200000\<rparr>"
  "(cave6 es)\<lparr>elements := es'\<rparr> = cave6 es'"
  by (simp_all add: cave6_def meta6_def dict_get_def)

lemma new_filename_meta6:
  "new_filename meta6 (Suc 0) ''.jpg'' = ''6-1_c2-u2_1672531200000.jpg''"
  by (simp add: new_filename_def meta6_def show_int_def show_nat.simps digit_char_def)

lemma not_media_text: "\<not> is_media_element (text_el s)" "\<not> convert_media (text_el s)"
  by (simp_all add: is_media_element_def convert_media_def text_el_def)

lemma image_el_fields: "efile (image_el f) = Some f" "etype (image_el f) = Some ''image''"
  "(image_el f)\<lparr>efile := Some g\<rparr> = image_el g"
  by (simp_all add: image_el_def)

lemma splitext_a_b: "snd (splitext ''a.jpg'') = ''.jpg''" "snd (splitext ''b.jpg'') = ''.jpg''"
  by (simp_all add: splitext_def rfind_def)

lemma rename_caves_snd:
  "snd (rename_caves os b [] st) = st"
  "snd (rename_caves os b (c # cs) st) = snd (rename_caves os b cs (snd (rename_cave os b c st)))"
  by (simp_all split: prod.splits)

lemma rename_caves_fst:
  "fst (rename_caves os b [] st) = []"
  "fst (rename_caves os b (c # cs) st) =
     fst (rename_cave os b c st) # fst (rename_caves os b cs (snd (rename_cave os b c st)))"
  by (simp_all split: prod.splits)

theorem C7_index_counter_per_record_witness:
  "rename_calls (snd (rename_caves sample_os ''cave''
       [cave5 [text_el ''hi'', image_el ''a.jpg''], cave6 [image_el ''b.jpg'']]
       (rn_init (jpegs [''a.jpg'', ''b.jpg'']))))
     = [(''cave/a.jpg'', ''cave/5-1_c1-u1_1672531200000.jpg''),
        (''cave/b.jpg'', ''cave/6-1_c2-u2_1672531200000.jpg'')]
   \<and> rename_element sample_os ''cave'' meta5 (text_el ''hi'') (rn_init (jpegs []))
       = (None, text_el ''hi'', rn_init (jpegs []))
   \<and> rename_calls (snd (rename_cave sample_os ''cave'' (cave5 [text_el ''hi''])
       (rn_init (jpegs [''a.jpg'']))))
     = []
   \<and> convert_element sample_os ''resources'' (JInt 7) ''chan'' (JInt 99) (text_el ''hi'')
         (cv_init (jpegs []) Map.empty [])
       = (text_el ''hi'', cv_init (jpegs []) Map.empty [])
   \<and> media_index_counter (snd (convert_elements sample_os ''resources'' (JInt 7) ''chan'' (JInt 99)
         [text_el ''hi'', image_el ''x.png''] (cv_init (jpegs []) Map.empty [])))
       = 2
   \<and> new_elements (last (output_data (convert_item_body sample_os ''resources'' (\<lambda>k. ''now'')
         (JInt 7) (JInt 99) (JStr ''Ann'') ''chan'' [text_el ''hi'', image_el ''x.png'']
         (cv_init (jpegs []) Map.empty []))))
       = [text_el ''hi'', image_el ''7_1_chan_99.png'']
   \<and> rename_calls (convert_item_body sample_os ''resources'' (\<lambda>k. ''now'')
         (JInt 7) (JInt 99) (JStr ''Ann'') ''chan'' [text_el ''hi'']
         (cv_init (jpegs []) Map.empty []))
       = []"
proof -
  let ?c1 = "cave5 [text_el ''hi'', image_el ''a.jpg'']"
  let ?c2 = "cave6 [image_el ''b.jpg'']"
  let ?st0 = "rn_init (jpegs [''a.jpg'', ''b.jpg''])"
  let ?n1 = "''5-1_c1-u1_1672531200000.jpg''"
  let ?n2 = "''6-1_c2-u2_1672531200000.jpg''"
  let ?cst = "cv_init (jpegs []) Map.empty [] :: sample_fs cv_state"
  have pj: "\<And>f. path_join ''cave'' (CHR ''a'' # f) = ''cave/a'' @ f"
    "\<And>f. path_join ''cave'' (CHR ''b'' # f) = ''cave/b'' @ f"
    "\<And>f. path_join ''cave'' (CHR ''5'' # f) = ''cave/5'' @ f"
    "\<And>f. path_join ''cave'' (CHR ''6'' # f) = ''cave/6'' @ f"
    by (simp_all add: path_join_def)
  \<comment> \<open>the first record, from the initial state\<close>
  have ex1: "os_path_exists sample_os (fsys ?st0) (path_join ''cave'' ''a.jpg'')"
    by (simp add: pj rn_init_def sample_os_def jpegs_def)
  have nf1: "?n1 = new_filename meta5 (Suc 0) (snd (splitext ''a.jpg''))"
    by (simp add: splitext_a_b new_filename_meta5)
  have rn1: "os_rename sample_os (fsys ?st0) (path_join ''cave'' ''a.jpg'') (path_join ''cave'' ?n1)
               = Some (jpegs [?n1, ''b.jpg''])"
    by (simp add: pj rn_init_def sample_os_def sample_rename_def jpegs_def)
  have el1: "elements ?c1 = [text_el ''hi''] @ image_el ''a.jpg'' # []"
    by (simp add: cave5_fields)
  have none: "\<forall>y\<in>set []. \<not> is_media_element y" "\<forall>y\<in>set [text_el ''hi'']. \<not> is_media_element y"
    by (simp_all add: not_media_text)
  have run1: "fsys (snd (rename_cave sample_os ''cave'' ?c1 ?st0)) = jpegs [?n1, ''b.jpg'']"
    by (simp add: rename_cave_single_renamed[OF cave5_fields(1,2) timestamp_2023 el1 none(2,1)
          is_media_image image_el_fields(1) ex1 cave5_fields(4) nf1 rn1])
  have calls1: "rename_calls (snd (rename_cave sample_os ''cave'' ?c1 ?st0))
      = [(''cave/a.jpg'', ''cave/5-1_c1-u1_1672531200000.jpg'')]"
    using C7_index_counter_per_record[where cave = ?c1 and os = sample_os and st = ?st0
        and b = "''cave''" and i = "JInt 5" and t = "''2023-01-01T00:00:00Z''"
        and ts = 1672531200000 and pre = "[text_el ''hi'']" and x = "image_el ''a.jpg''"
        and post = "[]" and f = "''a.jpg''"]
      cave5_fields(1,2)[of "[text_el ''hi'', image_el ''a.jpg'']"] timestamp_2023 el1 none
      is_media_image[of "''a.jpg''"] image_el_fields(1)[of "''a.jpg''"] ex1
    unfolding cave5_fields(4)[symmetric]
    by (simp add: nf1[symmetric] pj rn_init_def)
  \<comment> \<open>the second record, from the state the first one left\<close>
  let ?st1 = "snd (rename_cave sample_os ''cave'' ?c1 ?st0)"
  have ex2: "os_path_exists sample_os (fsys ?st1) (path_join ''cave'' ''b.jpg'')"
    unfolding run1 by (simp add: pj sample_os_def jpegs_def)
  have nf2: "?n2 = new_filename meta6 (Suc 0) (snd (splitext ''b.jpg''))"
    by (simp add: splitext_a_b new_filename_meta6)
  have el2: "elements ?c2 = [] @ image_el ''b.jpg'' # []"
    by (simp add: cave6_fields)
  have calls2: "rename_calls (snd (rename_cave sample_os ''cave'' ?c2 ?st1))
      = rename_calls ?st1 @ [(''cave/b.jpg'', ''cave/6-1_c2-u2_1672531200000.jpg'')]"
    using C7_index_counter_per_record[where cave = ?c2 and os = sample_os and st = ?st1
        and b = "''cave''" and i = "JInt 6" and t = "''2023-01-01T00:00:00Z''"
        and ts = 1672531200000 and pre = "[]" and x = "image_el ''b.jpg''"
        and post = "[]" and f = "''b.jpg''"]
      cave6_fields(1,2)[of "[image_el ''b.jpg'']"] timestamp_2023 el2 none(1)
      is_media_image[of "''b.jpg''"] image_el_fields(1)[of "''b.jpg''"] ex2
    unfolding cave6_fields(4)[symmetric]
    by (simp add: nf2[symmetric] pj)
  have w1: "rename_calls (snd (rename_caves sample_os ''cave'' [?c1, ?c2] ?st0))
     = [(''cave/a.jpg'', ''cave/5-1_c1-u1_1672531200000.jpg''),
        (''cave/b.jpg'', ''cave/6-1_c2-u2_1672531200000.jpg'')]"
    using calls1 calls2 by (simp only: rename_caves_snd) simp
  have w2: "rename_element sample_os ''cave'' meta5 (text_el ''hi'') (rn_init (jpegs []))
       = (None, text_el ''hi'', rn_init (jpegs []))"
    using C7_index_counter_per_record[where e = "text_el ''hi''" and os = sample_os
        and st = "rn_init (jpegs [])" and b = "''cave''" and m = meta5]
    by (simp add: text_el_def)
  have w3: "rename_calls (snd (rename_cave sample_os ''cave'' (cave5 [text_el ''hi''])
       (rn_init (jpegs [''a.jpg'']))))
     = []"
    using C7_index_counter_per_record[where cave = "cave5 [text_el ''hi'']" and os = sample_os
        and st = "rn_init (jpegs [''a.jpg''])" and b = "''cave''"]
    by (simp add: cave5_fields not_media_text rn_init_def)
  have w4: "convert_element sample_os ''resources'' (JInt 7) ''chan'' (JInt 99) (text_el ''hi'') ?cst
       = (text_el ''hi'', ?cst)"
    using C7_index_counter_per_record[where e = "text_el ''hi''" and os = sample_os
        and cst = ?cst and d = "''resources''" and c = "JInt 7" and ch = "''chan''" and u = "JInt 99"]
    by (simp add: not_media_text)
  have cm: "convert_media (image_el ''x.png'')"
    by (simp add: convert_media_def image_el_def)
  have "media_index_counter (snd (convert_elements sample_os ''resources'' (JInt 7) ''chan'' (JInt 99)
         [text_el ''hi'', image_el ''x.png''] ?cst))
       = media_index_counter ?cst + length (filter convert_media [text_el ''hi'', image_el ''x.png''])"
    using C7_index_counter_per_record[where es = "[text_el ''hi'', image_el ''x.png'']"
        and os = sample_os and cst = ?cst and d = "''resources''" and c = "JInt 7"
        and ch = "''chan''" and u = "JInt 99"]
    by blast
  also have "\<dots> = 2"
    by (simp add: not_media_text cm cv_init_def)
  finally have w5: "media_index_counter (snd (convert_elements sample_os ''resources'' (JInt 7) ''chan'' (JInt 99)
         [text_el ''hi'', image_el ''x.png''] ?cst)) = 2" .
  have cf: "convert_filename (JInt 7) (Suc 0) ''chan'' (JInt 99) (snd (splitext ''x.png'')) = ''7_1_chan_99.png''"
    by (simp add: convert_filename_def show_int_def show_nat.simps digit_char_def splitext_def rfind_def)
  have w6: "new_elements (last (output_data (convert_item_body sample_os ''resources'' (\<lambda>k. ''now'')
         (JInt 7) (JInt 99) (JStr ''Ann'') ''chan'' [text_el ''hi'', image_el ''x.png''] ?cst)))
       = [text_el ''hi'', image_el ''7_1_chan_99.png'']"
    using C7_index_counter_per_record[where pre = "[text_el ''hi'']" and x = "image_el ''x.png''"
        and post = "[]" and f = "''x.png''"
        and os = sample_os and cst = ?cst and d = "''resources''" and c = "JInt 7"
        and ch = "''chan''" and u = "JInt 99" and n = "JStr ''Ann''" and clock = "\<lambda>k. ''now''"]
      cm
    by (simp add: not_media_text image_el_fields cf)
  have w7: "rename_calls (convert_item_body sample_os ''resources'' (\<lambda>k. ''now'')
         (JInt 7) (JInt 99) (JStr ''Ann'') ''chan'' [text_el ''hi''] ?cst) = []"
    using C7_index_counter_per_record[where es = "[text_el ''hi'']"
        and os = sample_os and cst = ?cst and d = "''resources''" and c = "JInt 7"
        and ch = "''chan''" and u = "JInt 99" and n = "JStr ''Ann''" and clock = "\<lambda>k. ''now''"]
    by (simp add: not_media_text cv_init_def)
  show ?thesis
    by (intro conjI w1 w2 w3 w4 w5 w6 w7)
qed

section \<open>Extension fix: the steps of the loops\<close>

text \<open>The seven ways through the body of the element loop.\<close>

lemma correct_element_no_file:
  "efile e = None \<Longrightarrow> correct_element os d e st = (e, st)"
  by (simp add: correct_element_def)

lemma correct_element_missing:
  assumes "efile e = Some f" and "\<not> os_path_exists os (fsys st) (path_join d f)"
  shows "correct_element os d e st =
           (e, st\<lparr>console := console st @ [SkippedMissing f],
                   total_skipped := total_skipped st + 1\<rparr>)"
  using assms by (simp add: correct_element_def say_def)

lemma correct_element_raises:
  assumes "efile e = Some f" and "os_path_exists os (fsys st) (path_join d f)"
    and "filetype_guess os (fsys st) (path_join d f) = GuessRaises"
  shows "correct_element os d e st =
           (e, st\<lparr>console := console st @ [ErrorFile f],
                   total_skipped := total_skipped st + 1\<rparr>)"
  using assms by (simp add: correct_element_def say_def)

lemma correct_element_undetectable:
  assumes "efile e = Some f" and "os_path_exists os (fsys st) (path_join d f)"
    and "filetype_guess os (fsys st) (path_join d f) = NoKind"
  shows "correct_element os d e st =
           (e, st\<lparr>console := console st @ [SkippedUndetectable f],
                   total_skipped := total_skipped st + 1\<rparr>)"
  using assms by (simp add: correct_element_def say_def)

lemma correct_element_same:
  assumes "efile e = Some f" and "os_path_exists os (fsys st) (path_join d f)"
    and "filetype_guess os (fsys st) (path_join d f) = Kind ext"
    and "lower (snd (splitext f)) = lower (''.'' @ ext)"
  shows "correct_element os d e st = (e, st\<lparr>console := console st @ [AlreadyCorrect f]\<rparr>)"
  using assms by (simp add: correct_element_def say_def Let_def)

lemma correct_element_failed:
  assumes "efile e = Some f" and "os_path_exists os (fsys st) (path_join d f)"
    and "filetype_guess os (fsys st) (path_join d f) = Kind ext"
    and "lower (snd (splitext f)) \<noteq> lower (''.'' @ ext)"
    and "os_rename os (fsys st) (path_join d f)
           (path_join d (fst (splitext f) @ ''.'' @ ext)) = None"
  shows "correct_element os d e st =
           (e, st\<lparr>rename_calls := rename_calls st @
                     [(path_join d f, path_join d (fst (splitext f) @ ''.'' @ ext))],
                   console := console st @ [ErrorFile f],
                   total_skipped := total_skipped st + 1\<rparr>)"
  using assms by (simp add: correct_element_def say_def called_rename_def Let_def)

lemma correct_element_renamed:
  assumes "efile e = Some f" and "os_path_exists os (fsys st) (path_join d f)"
    and "filetype_guess os (fsys st) (path_join d f) = Kind ext"
    and "lower (snd (splitext f)) \<noteq> lower (''.'' @ ext)"
    and "os_rename os (fsys st) (path_join d f)
           (path_join d (fst (splitext f) @ ''.'' @ ext)) = Some fs'"
  shows "correct_element os d e st =
           (e\<lparr>efile := Some (fst (splitext f) @ ''.'' @ ext)\<rparr>,
            st\<lparr>fsys := fs',
                rename_calls := rename_calls st @
                     [(path_join d f, path_join d (fst (splitext f) @ ''.'' @ ext))],
                console := console st @ [Renamed f (fst (splitext f) @ ''.'' @ ext)],
                total_corrected := total_corrected st + 1\<rparr>)"
  using assms by (simp add: correct_element_def say_def called_rename_def Let_def)

lemma splitext_append: "fst (splitext p) @ snd (splitext p) = p"
  by (simp add: splitext_def Let_def)

section \<open>Claim C9: extensions are compared without regard to case\<close>

text \<open>
  Claim C9. In the extension fix, the current extension and the detected extension are
  compared after \<^verbatim>\<open>lower()\<close>: for every attachment whose file exists, whose content
  type is detected, and whose current extension equals the detected one up to letter case
  (as \<^verbatim>\<open>.JPG\<close> and \<^verbatim>\<open>.jpg\<close>), no rename is performed, and the filename field,
  the file system and the counters are left as they are.
\<close>

theorem C9_extension_case_insensitive:
  assumes "efile e = Some f" and "os_path_exists os (fsys st) (path_join d f)"
    and "filetype_guess os (fsys st) (path_join d f) = Kind ext"
    and "lower (snd (splitext f)) = lower (''.'' @ ext)"
  shows "fst (correct_element os d e st) = e
         \<and> rename_calls (snd (correct_element os d e st)) = rename_calls st
         \<and> fsys (snd (correct_element os d e st)) = fsys st
         \<and> total_corrected (snd (correct_element os d e st)) = total_corrected st
         \<and> total_skipped (snd (correct_element os d e st)) = total_skipped st
         \<and> console (snd (correct_element os d e st)) = console st @ [AlreadyCorrect f]
         \<and> lower ''.JPG'' = lower (''.'' @ ''jpg'')"
  by (simp add: correct_element_same[OF assms] lower_def lower_char_def)

theorem C9_extension_case_insensitive_witness:
  "fst (correct_element sample_os ''cave'' (image_el ''photo.JPG'') (fx_init (jpegs [''photo.JPG''])))
     = image_el ''photo.JPG''
   \<and> rename_calls (snd (correct_element sample_os ''cave'' (image_el ''photo.JPG'')
        (fx_init (jpegs [''photo.JPG''])))) = []
   \<and> fsys (snd (correct_element sample_os ''cave'' (image_el ''photo.JPG'')
        (fx_init (jpegs [''photo.JPG''])))) = jpegs [''photo.JPG'']
   \<and> console (snd (correct_element sample_os ''cave'' (image_el ''photo.JPG'')
        (fx_init (jpegs [''photo.JPG''])))) = [AlreadyCorrect ''photo.JPG'']"
proof -
  let ?st = "fx_init (jpegs [''photo.JPG''])"
  have pj: "path_join ''cave'' ''photo.JPG'' = ''cave/photo.JPG''"
    by (simp add: path_join_def)
  have ex: "os_path_exists sample_os (fsys ?st) (path_join ''cave'' ''photo.JPG'')"
    unfolding pj by (simp add: fx_init_def sample_os_def jpegs_def)
  have gs: "filetype_guess sample_os (fsys ?st) (path_join ''cave'' ''photo.JPG'') = Kind ''jpg''"
    unfolding pj by (simp add: fx_init_def sample_os_def jpegs_def sniff_def jpeg_bytes_def)
  have lw: "lower (snd (splitext ''photo.JPG'')) = lower (''.'' @ ''jpg'')"
    by (simp add: splitext_def rfind_def lower_def lower_char_def)
  show ?thesis
    using C9_extension_case_insensitive[OF image_el_fields(1) ex gs lw]
    by (simp add: fx_init_def)
qed

section \<open>Claim C1: a target equal to the current filename\<close>

lemma sample_second_run:
  "rename_cave sample_os ''cave'' (cave5 [image_el ''5-1_c1-u1_1672531200000.jpg''])
       (rn_init (jpegs [''5-1_c1-u1_1672531200000.jpg''])) =
     (cave5 [image_el ''5-1_c1-u1_1672531200000.jpg''],
      \<lparr>fsys = jpegs [''5-1_c1-u1_1672531200000.jpg''],
       rename_calls = [(''cave/5-1_c1-u1_1672531200000.jpg'', ''cave/5-1_c1-u1_1672531200000.jpg'')],
       console = [Renamed ''5-1_c1-u1_1672531200000.jpg'' ''5-1_c1-u1_1672531200000.jpg''],
       total_skipped = 0, total_renamed = 1, updated_json_entries = 1, media_index = 1,
       entry_updated = True\<rparr>)"
  using sample_cave_run[of "''5-1_c1-u1_1672531200000.jpg''"]
  by (simp add: splitext_new5)

text \<open>
  The full reindex run a second time, on the document and the media directory that the
  first run of claim C8 leaves: the attachment's target equals its current filename, and
  yet \<^verbatim>\<open>os.rename\<close> is called, the attachment is reported as renamed and the run
  counts one correction.
\<close>

theorem C1_counterexample:
  "new_filename meta5 1 (snd (splitext ''5-1_c1-u1_1672531200000.jpg''))
     = ''5-1_c1-u1_1672531200000.jpg''
   \<and> reindex_main sample_os (Document [cave5 [image_el ''5-1_c1-u1_1672531200000.jpg'']]) ''cave'' True
       (jpegs [''5-1_c1-u1_1672531200000.jpg'']) =
     (Some [cave5 [image_el ''5-1_c1-u1_1672531200000.jpg'']], None,
      \<lparr>fsys = jpegs [''5-1_c1-u1_1672531200000.jpg''],
       rename_calls = [(''cave/5-1_c1-u1_1672531200000.jpg'', ''cave/5-1_c1-u1_1672531200000.jpg'')],
       console = [Renamed ''5-1_c1-u1_1672531200000.jpg'' ''5-1_c1-u1_1672531200000.jpg'', Saved],
       total_skipped = 0, total_renamed = 1, updated_json_entries = 1, media_index = 1,
       entry_updated = True\<rparr>)"
  using sample_second_run new_filename_meta5
  by (simp add: reindex_main_def rename_files_and_update_json_def sample_isdir splitext_new5 say_def)

text \<open>
  Claim C1, amended. For every attachment whose computed target filename equals its
  current filename, the filename field stays as it is. In the extension fix (file present,
  content type detected) no rename is performed, nothing is counted and the attachment is
  reported as already correct. In the full reindex there is no such test: when the file
  exists, \<^verbatim>\<open>os.rename\<close> is called with the same source and destination, and when the
  call succeeds the attachment is reported and counted as renamed; a second run therefore
  counts again every attachment whose file exists.
\<close>

theorem C1_target_equals_current:
  "(efile e = Some f \<and> os_path_exists os (fsys fst0) (path_join d f)
      \<and> filetype_guess os (fsys fst0) (path_join d f) = Kind ext
      \<and> fst (splitext f) @ ''.'' @ ext = f \<longrightarrow>
      correct_element os d e fst0 = (e, fst0\<lparr>console := console fst0 @ [AlreadyCorrect f]\<rparr>))
   \<and> (is_media_element e \<and> efile e = Some f \<and> os_path_exists os (fsys st) (path_join b f)
      \<and> new_filename m (media_index st + 1) (snd (splitext f)) = f
      \<and> os_rename os (fsys st) (path_join b f) (path_join b f) = Some fs' \<longrightarrow>
      rename_element os b m e st =
        (None, e,
         st\<lparr>fsys := fs',
             rename_calls := rename_calls st @ [(path_join b f, path_join b f)],
             console := console st @ [Renamed f f],
             total_renamed := total_renamed st + 1,
             media_index := media_index st + 1,
             entry_updated := True\<rparr>))"
proof -
  have p1: "efile e = Some f \<and> os_path_exists os (fsys fst0) (path_join d f)
      \<and> filetype_guess os (fsys fst0) (path_join d f) = Kind ext
      \<and> fst (splitext f) @ ''.'' @ ext = f \<longrightarrow>
      correct_element os d e fst0 = (e, fst0\<lparr>console := console fst0 @ [AlreadyCorrect f]\<rparr>)"
  proof
    assume a: "efile e = Some f \<and> os_path_exists os (fsys fst0) (path_join d f)
      \<and> filetype_guess os (fsys fst0) (path_join d f) = Kind ext
      \<and> fst (splitext f) @ ''.'' @ ext = f"
    then have "fst (splitext f) @ ''.'' @ ext = fst (splitext f) @ snd (splitext f)"
      by (simp add: splitext_append)
    then have "snd (splitext f) = ''.'' @ ext"
      by simp
    then have "lower (snd (splitext f)) = lower (''.'' @ ext)"
      by simp
    with a show "correct_element os d e fst0 = (e, fst0\<lparr>console := console fst0 @ [AlreadyCorrect f]\<rparr>)"
      using correct_element_same by blast
  qed
  have p2: "is_media_element e \<and> efile e = Some f \<and> os_path_exists os (fsys st) (path_join b f)
      \<and> new_filename m (media_index st + 1) (snd (splitext f)) = f
      \<and> os_rename os (fsys st) (path_join b f) (path_join b f) = Some fs' \<longrightarrow>
      rename_element os b m e st =
        (None, e,
         st\<lparr>fsys := fs',
             rename_calls := rename_calls st @ [(path_join b f, path_join b f)],
             console := console st @ [Renamed f f],
             total_renamed := total_renamed st + 1,
             media_index := media_index st + 1,
             entry_updated := True\<rparr>)"
  proof
    assume a: "is_media_element e \<and> efile e = Some f \<and> os_path_exists os (fsys st) (path_join b f)
      \<and> new_filename m (media_index st + 1) (snd (splitext f)) = f
      \<and> os_rename os (fsys st) (path_join b f) (path_join b f) = Some fs'"
    then have nf: "new_filename m (Suc (media_index st)) (snd (splitext f)) = f"
      by simp
    have same: "e\<lparr>efile := Some f\<rparr> = e"
      using a by simp
    from a have "rename_element os b m e st =
        (None, e\<lparr>efile := Some (new_filename m (Suc (media_index st)) (snd (splitext f)))\<rparr>,
            st\<lparr>fsys := fs',
                rename_calls := rename_calls st @
                    [(path_join b f,
                      path_join b (new_filename m (Suc (media_index st)) (snd (splitext f))))],
                console := console st @
                    [Renamed f (new_filename m (Suc (media_index st)) (snd (splitext f)))],
                total_renamed := total_renamed st + 1,
                media_index := Suc (media_index st),
                entry_updated := True\<rparr>)"
      by (intro rename_element_renamed) (simp_all add: nf)
    then show "rename_element os b m e st =
        (None, e,
         st\<lparr>fsys := fs',
             rename_calls := rename_calls st @ [(path_join b f, path_join b f)],
             console := console st @ [Renamed f f],
             total_renamed := total_renamed st + 1,
             media_index := media_index st + 1,
             entry_updated := True\<rparr>)"
      by (simp add: nf same)
  qed
  show ?thesis
    by (intro conjI p1 p2)
qed


theorem C1_target_equals_current_witness:
  "correct_element sample_os ''cave'' (image_el ''photo.jpg'') (fx_init (jpegs [''photo.jpg'']))
     = (image_el ''photo.jpg'',
        (fx_init (jpegs [''photo.jpg'']))\<lparr>console := [AlreadyCorrect ''photo.jpg'']\<rparr>)
   \<and> rename_element sample_os ''cave'' meta5 (image_el ''5-1_c1-u1_1672531200000.jpg'')
       (rn_init (jpegs [''5-1_c1-u1_1672531200000.jpg'']))
     = (None, image_el ''5-1_c1-u1_1672531200000.jpg'',
        (rn_init (jpegs [''5-1_c1-u1_1672531200000.jpg'']))
          \<lparr>rename_calls := [(''cave/5-1_c1-u1_1672531200000.jpg'',
                             ''cave/5-1_c1-u1_1672531200000.jpg'')],
           console := [Renamed ''5-1_c1-u1_1672531200000.jpg'' ''5-1_c1-u1_1672531200000.jpg''],
           total_renamed := 1, media_index := 1, entry_updated := True\<rparr>)"
proof -
  let ?fst = "fx_init (jpegs [''photo.jpg''])"
  let ?n = "''5-1_c1-u1_1672531200000.jpg''"
  let ?st = "rn_init (jpegs [?n])"
  have pj: "path_join ''cave'' ''photo.jpg'' = ''cave/photo.jpg''"
    "path_join ''cave'' ?n = ''cave/'' @ ?n"
    by (simp_all add: path_join_def)
  have ex1: "os_path_exists sample_os (fsys ?fst) (path_join ''cave'' ''photo.jpg'')"
    unfolding pj by (simp add: fx_init_def sample_os_def jpegs_def)
  have gs1: "filetype_guess sample_os (fsys ?fst) (path_join ''cave'' ''photo.jpg'') = Kind ''jpg''"
    unfolding pj by (simp add: fx_init_def sample_os_def jpegs_def sniff_def jpeg_bytes_def)
  have tg1: "fst (splitext ''photo.jpg'') @ ''.'' @ ''jpg'' = ''photo.jpg''"
    by (simp add: splitext_def rfind_def)
  have ex2: "os_path_exists sample_os (fsys ?st) (path_join ''cave'' ?n)"
    unfolding pj by (simp add: rn_init_def sample_os_def jpegs_def)
  have tg2: "new_filename meta5 (media_index ?st + 1) (snd (splitext ?n)) = ?n"
    using new_filename_meta5 by (simp add: splitext_new5 rn_init_def)
  have rn2: "os_rename sample_os (fsys ?st) (path_join ''cave'' ?n) (path_join ''cave'' ?n)
      = Some (jpegs [?n])"
    unfolding pj by (simp add: rn_init_def sample_os_def sample_rename_def jpegs_def)
  have w1: "correct_element sample_os ''cave'' (image_el ''photo.jpg'') ?fst
     = (image_el ''photo.jpg'', ?fst\<lparr>console := console ?fst @ [AlreadyCorrect ''photo.jpg'']\<rparr>)"
    using C1_target_equals_current[where os = sample_os and e = "image_el ''photo.jpg''"
        and f = "''photo.jpg''" and d = "''cave''" and ext = "''jpg''" and ?fst0.0 = ?fst]
      image_el_fields(1)[of "''photo.jpg''"] ex1 gs1 tg1
    by blast
  have w2: "rename_element sample_os ''cave'' meta5 (image_el ?n) ?st
     = (None, image_el ?n,
         ?st\<lparr>fsys := jpegs [?n],
             rename_calls := rename_calls ?st @ [(path_join ''cave'' ?n, path_join ''cave'' ?n)],
             console := console ?st @ [Renamed ?n ?n],
             total_renamed := total_renamed ?st + 1,
             media_index := media_index ?st + 1,
             entry_updated := True\<rparr>)"
    using C1_target_equals_current[where os = sample_os and e = "image_el ?n"
        and f = ?n and b = "''cave''" and m = meta5 and st = ?st and fs' = "jpegs [?n]"]
      is_media_image[of ?n] image_el_fields(1)[of ?n] ex2 tg2 rn2
    by blast
  show ?thesis
    using w1 w2 by (simp add: pj fx_init_def rn_init_def)
qed

section \<open>Claim C2: attachments that end skipped\<close>

lemma convert_element_missing:
  assumes "convert_media e" and "efile e = Some f"
    and "\<not> os_path_exists os (fsys st) (path_join d (basename f))"
  shows "convert_element os d c ch u e st =
           (e\<lparr>efile := Some (convert_filename c (media_index_counter st) ch u (snd (splitext f)))\<rparr>,
            st\<lparr>console := console st @ [SkippedMissing (basename f)],
                media_index_counter := Suc (media_index_counter st)\<rparr>)"
  using assms by (auto simp add: convert_element_def convert_media_def Let_def say_def)

lemma convert_element_failed:
  assumes "convert_media e" and "efile e = Some f"
    and "os_path_exists os (fsys st) (path_join d (basename f))"
    and "os_rename os (fsys st) (path_join d (basename f))
           (path_join d (convert_filename c (media_index_counter st) ch u (snd (splitext f)))) = None"
  shows "convert_element os d c ch u e st =
           (e\<lparr>efile := Some (convert_filename c (media_index_counter st) ch u (snd (splitext f)))\<rparr>,
            st\<lparr>rename_calls := rename_calls st @
                  [(path_join d (basename f),
                    path_join d (convert_filename c (media_index_counter st) ch u (snd (splitext f))))],
                console := console st @ [ErrorFile (basename (path_join d (basename f)))],
                media_index_counter := Suc (media_index_counter st)\<rparr>)"
  using assms
  by (auto simp add: convert_element_def convert_media_def Let_def say_def called_rename_def)

lemma convert_element_renamed:
  assumes "convert_media e" and "efile e = Some f"
    and "os_path_exists os (fsys st) (path_join d (basename f))"
    and "os_rename os (fsys st) (path_join d (basename f))
           (path_join d (convert_filename c (media_index_counter st) ch u (snd (splitext f)))) = Some fs'"
  shows "convert_element os d c ch u e st =
           (e\<lparr>efile := Some (convert_filename c (media_index_counter st) ch u (snd (splitext f)))\<rparr>,
            st\<lparr>fsys := fs',
                rename_calls := rename_calls st @
                  [(path_join d (basename f),
                    path_join d (convert_filename c (media_index_counter st) ch u (snd (splitext f))))],
                console := console st @
                  [Renamed (basename (path_join d (basename f)))
                     (convert_filename c (media_index_counter st) ch u (snd (splitext f)))],
                media_index_counter := Suc (media_index_counter st)\<rparr>)"
  using assms
  by (auto simp add: convert_element_def convert_media_def Let_def say_def called_rename_def)

text \<open>
  The schema conversion on an image whose file is not in the resources directory: the
  rename is skipped with a warning, and the filename field of the output element is the
  new name all the same.
\<close>

theorem C2_counterexample:
  "convert_element sample_os ''resources'' (JInt 7) ''chan'' (JInt 99) (image_el ''x.png'')
       (cv_init (jpegs []) Map.empty []) =
     (image_el ''7_1_chan_99.png'',
      (cv_init (jpegs []) Map.empty [])
        \<lparr>console := [SkippedMissing ''x.png''], media_index_counter := 2\<rparr>)
   \<and> image_el ''7_1_chan_99.png'' \<noteq> image_el ''x.png''"
proof -
  let ?st = "cv_init (jpegs []) Map.empty [] :: sample_fs cv_state"
  have cm: "convert_media (image_el ''x.png'')"
    by (simp add: convert_media_def image_el_def)
  have bn: "basename ''x.png'' = ''x.png''"
    by (simp add: basename_def rfind_def)
  have ex: "\<not> os_path_exists sample_os (fsys ?st) (path_join ''resources'' (basename ''x.png''))"
    unfolding bn by (simp add: cv_init_def sample_os_def jpegs_def path_join_def)
  have cf: "convert_filename (JInt 7) (media_index_counter ?st) ''chan'' (JInt 99) (snd (splitext ''x.png''))
      = ''7_1_chan_99.png''"
    by (simp add: cv_init_def convert_filename_def show_int_def show_nat.simps digit_char_def
        splitext_def rfind_def)
  show ?thesis
    using convert_element_missing[OF cm image_el_fields(1) ex, of "JInt 7" "''chan''" "JInt 99"]
    unfolding cf bn
    by (simp add: image_el_def cv_init_def)
qed


text \<open>
  Claim C2, amended. In the extension fix and in the full reindex, for every attachment
  that ends skipped (source file missing, content type undetectable, detector or rename
  failure), the filename field is the same after as before, nothing is counted as
  corrected, and the file system is as before: either no rename was attempted, or the
  one attempted rename failed. In the schema conversion the filename field of the output
  element is always the new name, whether or not the file was found and renamed; when the
  file is missing or the rename fails the file system is as before.
\<close>

theorem C2_skipped_attachments:
  "(correct_element os d e fst0 = (e', fst1) \<and> total_skipped fst1 = total_skipped fst0 + 1 \<longrightarrow>
      e' = e \<and> fsys fst1 = fsys fst0 \<and> total_corrected fst1 = total_corrected fst0
      \<and> (rename_calls fst1 = rename_calls fst0
          \<or> (\<exists>src dst. rename_calls fst1 = rename_calls fst0 @ [(src, dst)]
                \<and> os_rename os (fsys fst0) src dst = None)))
   \<and> (rename_element os b m e st = (x, e', st')
        \<and> (x \<noteq> None \<or> total_skipped st' = total_skipped st + 1) \<longrightarrow>
      e' = e \<and> fsys st' = fsys st \<and> total_renamed st' = total_renamed st
      \<and> (rename_calls st' = rename_calls st
          \<or> (\<exists>src dst. rename_calls st' = rename_calls st @ [(src, dst)]
                \<and> os_rename os (fsys st) src dst = None)))
   \<and> (convert_media e \<and> efile e = Some f \<longrightarrow>
      efile (fst (convert_element os d c ch u e cst)) =
        Some (convert_filename c (media_index_counter cst) ch u (snd (splitext f)))
      \<and> (\<not> os_path_exists os (fsys cst) (path_join d (basename f))
          \<or> os_rename os (fsys cst) (path_join d (basename f))
               (path_join d (convert_filename c (media_index_counter cst) ch u (snd (splitext f))))
             = None \<longrightarrow>
          fsys (snd (convert_element os d c ch u e cst)) = fsys cst))"
proof -
  have p1: "correct_element os d e fst0 = (e', fst1) \<and> total_skipped fst1 = total_skipped fst0 + 1 \<longrightarrow>
      e' = e \<and> fsys fst1 = fsys fst0 \<and> total_corrected fst1 = total_corrected fst0
      \<and> (rename_calls fst1 = rename_calls fst0
          \<or> (\<exists>src dst. rename_calls fst1 = rename_calls fst0 @ [(src, dst)]
                \<and> os_rename os (fsys fst0) src dst = None))"
    by (auto simp add: correct_element_def Let_def say_def called_rename_def
        split: option.splits guess.splits if_splits)
  have p2: "rename_element os b m e st = (x, e', st')
        \<and> (x \<noteq> None \<or> total_skipped st' = total_skipped st + 1) \<longrightarrow>
      e' = e \<and> fsys st' = fsys st \<and> total_renamed st' = total_renamed st
      \<and> (rename_calls st' = rename_calls st
          \<or> (\<exists>src dst. rename_calls st' = rename_calls st @ [(src, dst)]
                \<and> os_rename os (fsys st) src dst = None))"
    by (auto simp add: rename_element_def Let_def say_def called_rename_def
        split: option.splits if_splits)
  have p3: "convert_media e \<and> efile e = Some f \<longrightarrow>
      efile (fst (convert_element os d c ch u e cst)) =
        Some (convert_filename c (media_index_counter cst) ch u (snd (splitext f)))
      \<and> (\<not> os_path_exists os (fsys cst) (path_join d (basename f))
          \<or> os_rename os (fsys cst) (path_join d (basename f))
               (path_join d (convert_filename c (media_index_counter cst) ch u (snd (splitext f))))
             = None \<longrightarrow>
          fsys (snd (convert_element os d c ch u e cst)) = fsys cst)"
    by (auto simp add: convert_element_def convert_media_def Let_def say_def called_rename_def
        split: option.splits)
  show ?thesis
    by (intro conjI p1 p2 p3)
qed


theorem C2_skipped_attachments_witness:
  "fst (correct_element sample_os ''cave'' (image_el ''gone.jpg'') (fx_init (jpegs [])))
     = image_el ''gone.jpg''
   \<and> fsys (snd (correct_element sample_os ''cave'' (image_el ''gone.jpg'') (fx_init (jpegs []))))
     = jpegs []
   \<and> fst (snd (rename_element sample_os ''cave'' meta5 (image_el ''a.jpg'')
        (rn_init ((jpegs [''a.jpg''])\<lparr>locked := [''cave/a.jpg'']\<rparr>))))
     = image_el ''a.jpg''
   \<and> fsys (snd (snd (rename_element sample_os ''cave'' meta5 (image_el ''a.jpg'')
        (rn_init ((jpegs [''a.jpg''])\<lparr>locked := [''cave/a.jpg'']\<rparr>)))))
     = (jpegs [''a.jpg''])\<lparr>locked := [''cave/a.jpg'']\<rparr>
   \<and> efile (fst (convert_element sample_os ''resources'' (JInt 7) ''chan'' (JInt 99)
        (image_el ''x.png'') (cv_init (jpegs []) Map.empty [])))
     = Some ''7_1_chan_99.png''
   \<and> fsys (snd (convert_element sample_os ''resources'' (JInt 7) ''chan'' (JInt 99)
        (image_el ''x.png'') (cv_init (jpegs []) Map.empty [])))
     = jpegs []"
proof -
  let ?fx = "fx_init (jpegs [])"
  let ?lk = "(jpegs [''a.jpg''])\<lparr>locked := [''cave/a.jpg'']\<rparr>"
  let ?st = "rn_init ?lk"
  let ?cst = "cv_init (jpegs []) Map.empty [] :: sample_fs cv_state"
  \<comment> \<open>extension fix, file missing\<close>
  let ?r1 = "correct_element sample_os ''cave'' (image_el ''gone.jpg'') ?fx"
  have ex1: "\<not> os_path_exists sample_os (fsys ?fx) (path_join ''cave'' ''gone.jpg'')"
    by (simp add: fx_init_def sample_os_def jpegs_def path_join_def)
  have sk1: "total_skipped (snd ?r1) = total_skipped ?fx + 1"
    by (simp add: correct_element_missing[OF image_el_fields(1) ex1])
  have w1: "fst ?r1 = image_el ''gone.jpg'' \<and> fsys (snd ?r1) = fsys ?fx"
    using C2_skipped_attachments[where os = sample_os and d = "''cave''"
        and e = "image_el ''gone.jpg''" and ?fst0.0 = ?fx and e' = "fst ?r1" and ?fst1.0 = "snd ?r1"]
      sk1
    by simp
  \<comment> \<open>full reindex, rename refused\<close>
  let ?r2 = "rename_element sample_os ''cave'' meta5 (image_el ''a.jpg'') ?st"
  have ex2: "os_path_exists sample_os (fsys ?st) (path_join ''cave'' ''a.jpg'')"
    by (simp add: rn_init_def sample_os_def jpegs_def path_join_def)
  have rn2: "os_rename sample_os (fsys ?st) (path_join ''cave'' ''a.jpg'')
           (path_join ''cave'' (new_filename meta5 (Suc (media_index ?st)) (snd (splitext ''a.jpg''))))
      = None"
    by (simp add: rn_init_def sample_os_def sample_rename_def jpegs_def path_join_def)
  have x2: "fst ?r2 \<noteq> None"
    by (simp add: rename_element_failed[OF is_media_image image_el_fields(1) ex2 rn2])
  have w2: "fst (snd ?r2) = image_el ''a.jpg'' \<and> fsys (snd (snd ?r2)) = fsys ?st"
    using C2_skipped_attachments[where os = sample_os and b = "''cave''" and m = meta5
        and e = "image_el ''a.jpg''" and st = ?st and x = "fst ?r2" and e' = "fst (snd ?r2)"
        and st' = "snd (snd ?r2)"]
      x2
    by simp
  \<comment> \<open>schema conversion, file missing\<close>
  have cm: "convert_media (image_el ''x.png'')"
    by (simp add: convert_media_def image_el_def)
  have ex3: "\<not> os_path_exists sample_os (fsys ?cst) (path_join ''resources'' (basename ''x.png''))"
    by (simp add: cv_init_def sample_os_def jpegs_def path_join_def basename_def rfind_def)
  have cf: "convert_filename (JInt 7) (media_index_counter ?cst) ''chan'' (JInt 99) (snd (splitext ''x.png''))
      = ''7_1_chan_99.png''"
    by (simp add: cv_init_def convert_filename_def show_int_def show_nat.simps digit_char_def
        splitext_def rfind_def)
  have w3: "efile (fst (convert_element sample_os ''resources'' (JInt 7) ''chan'' (JInt 99)
        (image_el ''x.png'') ?cst)) = Some ''7_1_chan_99.png''
      \<and> fsys (snd (convert_element sample_os ''resources'' (JInt 7) ''chan'' (JInt 99)
        (image_el ''x.png'') ?cst)) = fsys ?cst"
    using C2_skipped_attachments[where os = sample_os and d = "''resources''"
        and e = "image_el ''x.png''" and f = "''x.png''" and c = "JInt 7" and ch = "''chan''"
        and u = "JInt 99" and cst = ?cst]
      cm image_el_fields(1)[of "''x.png''"] ex3
    unfolding cf
    by blast
  show ?thesis
    using w1 w2 w3 by (simp add: fx_init_def rn_init_def cv_init_def)
qed

section \<open>Claim C3: when the document is written\<close>

lemma correct_element_no_saved:
  "Saved \<in> set (console (snd (correct_element os d e st))) \<longleftrightarrow> Saved \<in> set (console st)"
  by (auto simp add: correct_element_def Let_def say_def called_rename_def
      split: option.splits guess.splits)

lemma correct_elements_no_saved:
  "Saved \<in> set (console (snd (correct_elements os d es st))) \<longleftrightarrow> Saved \<in> set (console st)"
proof (induction es arbitrary: st)
  case Nil
  then show ?case by simp
next
  case (Cons e es)
  obtain e1 st1 where el: "correct_element os d e st = (e1, st1)"
    by (cases "correct_element os d e st") auto
  have "Saved \<in> set (console st1) \<longleftrightarrow> Saved \<in> set (console st)"
    using correct_element_no_saved[of os d e st] el by simp
  with Cons.IH[of st1] el show ?case
    by (auto split: prod.splits)
qed

lemma correct_caves_no_saved:
  "Saved \<in> set (console (snd (correct_caves os d cs st))) \<longleftrightarrow> Saved \<in> set (console st)"
proof (induction cs arbitrary: st)
  case Nil
  then show ?case by simp
next
  case (Cons c cs)
  obtain es1 st1 where el: "correct_elements os d (elements c) st = (es1, st1)"
    by (cases "correct_elements os d (elements c) st") auto
  have "Saved \<in> set (console st1) \<longleftrightarrow> Saved \<in> set (console st)"
    using correct_elements_no_saved[of os d "elements c" st] el by simp
  with Cons.IH[of st1] el show ?case
    by (auto split: prod.splits)
qed

lemma rename_caves_length: "length (fst (rename_caves os b cs st)) = length cs"
proof (induction cs arbitrary: st)
  case Nil
  then show ?case by simp
next
  case (Cons c cs)
  show ?case
    unfolding rename_caves_fst(2) by (simp add: Cons.IH)
qed

text \<open>
  The full reindex on a document whose only attachment references a file that is not in
  the media directory: the attachment ends skipped, no attachment is corrected, and the
  output document is written.
\<close>

theorem C3_counterexample:
  "reindex_main sample_os (Document [cave5 [image_el ''gone.jpg'']]) ''cave'' True (jpegs []) =
     (Some [cave5 [image_el ''gone.jpg'']], None,
      \<lparr>fsys = jpegs [], rename_calls = [], console = [SkippedMissing ''gone.jpg'', Saved],
       total_skipped = 1, total_renamed = 0, updated_json_entries = 0, media_index = 1,
       entry_updated = False\<rparr>)"
proof -
  let ?c = "cave5 [image_el ''gone.jpg'']"
  let ?st = "rn_init (jpegs [])"
  have el: "elements ?c = [] @ image_el ''gone.jpg'' # []"
    by (simp add: cave5_fields)
  have none: "\<forall>y\<in>set []. \<not> is_media_element y"
    by simp
  have ex: "\<not> os_path_exists sample_os (fsys ?st) (path_join ''cave'' ''gone.jpg'')"
    by (simp add: rn_init_def sample_os_def jpegs_def path_join_def)
  have "rename_cave sample_os ''cave'' ?c ?st =
      (?c, ?st\<lparr>console := console ?st @ [SkippedMissing ''gone.jpg''],
                total_skipped := total_skipped ?st + 1,
                media_index := Suc 0, entry_updated := False\<rparr>)"
    by (rule rename_cave_single_missing[OF cave5_fields(1,2) timestamp_2023 el none none
          is_media_image image_el_fields(1) ex])
  then show ?thesis
    by (simp add: reindex_main_def rename_files_and_update_json_def sample_isdir say_def rn_init_def)
qed

text \<open>
  Claim C3, amended. In the extension fix the document is written back if and only if at
  least one attachment was corrected (and the file can be opened for writing); a run in
  which no attachment is corrected leaves the stored document untouched. In the full
  reindex the updated document is written to the output path whenever the media directory
  exists and the loaded document is a non-empty list, whether or not any attachment was
  corrected.
\<close>

theorem C3_document_written:
  "(Saved \<in> set (console (snd (correct_files_and_update_json os json d w fs))) \<longrightarrow>
      total_corrected (snd (correct_files_and_update_json os json d w fs)) > 0)
   \<and> (json = Document data \<and> os_path_isdir os fs d \<and> w
        \<and> total_corrected (snd (correct_files_and_update_json os json d w fs)) > 0 \<longrightarrow>
      fst (correct_files_and_update_json os json d w fs) =
        Document (fst (correct_caves os d data (fx_init fs)))
      \<and> Saved \<in> set (console (snd (correct_files_and_update_json os json d w fs))))
   \<and> (total_corrected (snd (correct_files_and_update_json os json d w fs)) = 0 \<longrightarrow>
      fst (correct_files_and_update_json os json d w fs) = json)
   \<and> (data \<noteq> [] \<and> os_path_isdir os fs d \<longrightarrow>
      reindex_main os (Document data) d True fs =
        (Some (fst (rename_caves os d data (rn_init fs))), None,
         say Saved (snd (rename_caves os d data (rn_init fs)))))"
proof -
  let ?R = "correct_files_and_update_json os json d w fs"
  have init: "Saved \<notin> set (console (fx_init fs))"
    by (simp add: fx_init_def)
  have loop: "Saved \<notin> set (console (snd (correct_caves os d cs (fx_init fs))))" for cs
    using correct_caves_no_saved[of os d cs "fx_init fs"] init by simp
  have p1: "Saved \<in> set (console (snd ?R)) \<longrightarrow> total_corrected (snd ?R) > 0"
  proof (cases json)
    case Absent
    then show ?thesis
      by (simp add: correct_files_and_update_json_def say_def fx_init_def)
  next
    case Garbage
    then show ?thesis
      by (simp add: correct_files_and_update_json_def say_def fx_init_def)
  next
    case (Document cs)
    obtain cs' st' where run: "correct_caves os d cs (fx_init fs) = (cs', st')"
      by (cases "correct_caves os d cs (fx_init fs)") auto
    with loop[of cs] have "Saved \<notin> set (console st')"
      by simp
    with Document run show ?thesis
      by (simp add: correct_files_and_update_json_def say_def fx_init_def)
  qed
  have p2: "json = Document data \<and> os_path_isdir os fs d \<and> w \<and> total_corrected (snd ?R) > 0 \<longrightarrow>
      fst ?R = Document (fst (correct_caves os d data (fx_init fs)))
      \<and> Saved \<in> set (console (snd ?R))"
    by (auto simp add: correct_files_and_update_json_def say_def split: prod.splits if_splits)
  have p3: "total_corrected (snd ?R) = 0 \<longrightarrow> fst ?R = json"
    by (auto simp add: correct_files_and_update_json_def say_def
        split: stored.splits prod.splits if_splits)
  have p4: "data \<noteq> [] \<and> os_path_isdir os fs d \<longrightarrow>
      reindex_main os (Document data) d True fs =
        (Some (fst (rename_caves os d data (rn_init fs))), None,
         say Saved (snd (rename_caves os d data (rn_init fs))))"
  proof
    assume a: "data \<noteq> [] \<and> os_path_isdir os fs d"
    then have "fst (rename_caves os d data (rn_init fs)) \<noteq> []"
      using rename_caves_length[of os d data "rn_init fs"] by auto
    with a show "reindex_main os (Document data) d True fs =
        (Some (fst (rename_caves os d data (rn_init fs))), None,
         say Saved (snd (rename_caves os d data (rn_init fs))))"
      by (auto simp add: reindex_main_def rename_files_and_update_json_def split: prod.splits)
  qed
  show ?thesis
    by (intro conjI p1 p2 p3 p4)
qed


lemma correct_caves_single:
  "correct_caves os d [c] st =
     (case correct_elements os d (elements c) st of (es, st') \<Rightarrow> ([c\<lparr>elements := es\<rparr>], st'))"
  by (simp split: prod.splits)

lemma correct_elements_single:
  "correct_elements os d [e] st =
     (case correct_element os d e st of (e', st') \<Rightarrow> ([e'], st'))"
  by (simp split: prod.splits)

lemma sample_fix_correct:
  "correct_caves sample_os ''cave'' [cave5 [image_el ''photo.jpg'']] (fx_init (jpegs [''photo.jpg'']))
     = ([cave5 [image_el ''photo.jpg'']],
        (fx_init (jpegs [''photo.jpg'']))\<lparr>console := [AlreadyCorrect ''photo.jpg'']\<rparr>)"
proof -
  let ?st = "fx_init (jpegs [''photo.jpg''])"
  have pj: "path_join ''cave'' ''photo.jpg'' = ''cave/photo.jpg''"
    by (simp add: path_join_def)
  have ex: "os_path_exists sample_os (fsys ?st) (path_join ''cave'' ''photo.jpg'')"
    unfolding pj by (simp add: fx_init_def sample_os_def jpegs_def)
  have gs: "filetype_guess sample_os (fsys ?st) (path_join ''cave'' ''photo.jpg'') = Kind ''jpg''"
    unfolding pj by (simp add: fx_init_def sample_os_def jpegs_def sniff_def jpeg_bytes_def)
  have lw: "lower (snd (splitext ''photo.jpg'')) = lower (''.'' @ ''jpg'')"
    by (simp add: splitext_def rfind_def lower_def lower_char_def)
  show ?thesis
    unfolding correct_caves_single cave5_fields(3) correct_elements_single
      correct_element_same[OF image_el_fields(1) ex gs lw]
    by (simp add: cave5_fields fx_init_def)
qed

lemma sample_fix_renamed:
  "correct_caves sample_os ''cave'' [cave5 [image_el ''photo.png'']] (fx_init (jpegs [''photo.png'']))
     = ([cave5 [image_el ''photo.jpg'']],
        (fx_init (jpegs [''photo.png'']))
          \<lparr>fsys := jpegs [''photo.jpg''],
           rename_calls := [(''cave/photo.png'', ''cave/photo.jpg'')],
           console := [Renamed ''photo.png'' ''photo.jpg''],
           total_corrected := 1\<rparr>)"
proof -
  let ?st = "fx_init (jpegs [''photo.png''])"
  have pj: "path_join ''cave'' ''photo.png'' = ''cave/photo.png''"
    "path_join ''cave'' ''photo.jpg'' = ''cave/photo.jpg''"
    by (simp_all add: path_join_def)
  have sp: "splitext ''photo.png'' = (''photo'', ''.png'')"
    by (simp add: splitext_def rfind_def)
  have ex: "os_path_exists sample_os (fsys ?st) (path_join ''cave'' ''photo.png'')"
    unfolding pj by (simp add: fx_init_def sample_os_def jpegs_def)
  have gs: "filetype_guess sample_os (fsys ?st) (path_join ''cave'' ''photo.png'') = Kind ''jpg''"
    unfolding pj by (simp add: fx_init_def sample_os_def jpegs_def sniff_def jpeg_bytes_def)
  have lw: "lower (snd (splitext ''photo.png'')) \<noteq> lower (''.'' @ ''jpg'')"
    unfolding sp by (simp add: lower_def lower_char_def)
  have rn: "os_rename sample_os (fsys ?st) (path_join ''cave'' ''photo.png'')
           (path_join ''cave'' (fst (splitext ''photo.png'') @ ''.'' @ ''jpg'')) = Some (jpegs [''photo.jpg''])"
    unfolding sp by (simp add: path_join_def fx_init_def sample_os_def sample_rename_def jpegs_def)
  show ?thesis
    unfolding correct_caves_single cave5_fields(3) correct_elements_single
      correct_element_renamed[OF image_el_fields(1) ex gs lw rn]
    by (simp add: cave5_fields image_el_fields fx_init_def sp path_join_def)
qed

theorem C3_document_written_witness:
  "fst (correct_files_and_update_json sample_os (Document [cave5 [image_el ''photo.png'']]) ''cave''
          True (jpegs [''photo.png'']))
     = Document [cave5 [image_el ''photo.jpg'']]
   \<and> Saved \<in> set (console (snd (correct_files_and_update_json sample_os
          (Document [cave5 [image_el ''photo.png'']]) ''cave'' True (jpegs [''photo.png'']))))
   \<and> total_corrected (snd (correct_files_and_update_json sample_os
          (Document [cave5 [image_el ''photo.png'']]) ''cave'' True (jpegs [''photo.png''])))
     = 1
   \<and> fst (correct_files_and_update_json sample_os (Document [cave5 [image_el ''photo.jpg'']]) ''cave''
          True (jpegs [''photo.jpg'']))
     = Document [cave5 [image_el ''photo.jpg'']]
   \<and> Saved \<notin> set (console (snd (correct_files_and_update_json sample_os
          (Document [cave5 [image_el ''photo.jpg'']]) ''cave'' True (jpegs [''photo.jpg'']))))
   \<and> fst (reindex_main sample_os (Document [cave5 [image_el ''gone.jpg'']]) ''cave'' True (jpegs []))
     = Some [cave5 [image_el ''gone.jpg'']]"
proof -
  let ?B = "correct_files_and_update_json sample_os (Document [cave5 [image_el ''photo.png'']]) ''cave''
          True (jpegs [''photo.png''])"
  let ?A = "correct_files_and_update_json sample_os (Document [cave5 [image_el ''photo.jpg'']]) ''cave''
          True (jpegs [''photo.jpg''])"
  have tcB: "total_corrected (snd ?B) = 1"
    using sample_fix_renamed
    by (simp add: correct_files_and_update_json_def sample_isdir say_def fx_init_def)
  have tcA: "total_corrected (snd ?A) = 0"
    using sample_fix_correct
    by (simp add: correct_files_and_update_json_def sample_isdir say_def fx_init_def)
  have wB: "fst ?B = Document (fst (correct_caves sample_os ''cave'' [cave5 [image_el ''photo.png'']]
                (fx_init (jpegs [''photo.png'']))))
      \<and> Saved \<in> set (console (snd ?B))"
    using C3_document_written[where os = sample_os and json = "Document [cave5 [image_el ''photo.png'']]"
        and data = "[cave5 [image_el ''photo.png'']]" and d = "''cave''" and w = True
        and fs = "jpegs [''photo.png'']"]
      tcB sample_isdir[of "[''photo.png'']"]
    by simp
  have wA: "fst ?A = Document [cave5 [image_el ''photo.jpg'']]"
    using C3_document_written[where os = sample_os and json = "Document [cave5 [image_el ''photo.jpg'']]"
        and d = "''cave''" and w = True and fs = "jpegs [''photo.jpg'']"]
      tcA
    by simp
  have nA: "Saved \<notin> set (console (snd ?A))"
    using C3_document_written[where os = sample_os and json = "Document [cave5 [image_el ''photo.jpg'']]"
        and d = "''cave''" and w = True and fs = "jpegs [''photo.jpg'']"]
      tcA
    by auto
  have wC: "fst (reindex_main sample_os (Document [cave5 [image_el ''gone.jpg'']]) ''cave'' True (jpegs []))
     = Some (fst (rename_caves sample_os ''cave'' [cave5 [image_el ''gone.jpg'']] (rn_init (jpegs []))))"
    using C3_document_written[where os = sample_os and data = "[cave5 [image_el ''gone.jpg'']]"
        and d = "''cave''" and fs = "jpegs []"]
      sample_isdir[of "[]"]
    by simp
  have el: "elements (cave5 [image_el ''gone.jpg'']) = [] @ image_el ''gone.jpg'' # []"
    by (simp add: cave5_fields)
  have none: "\<forall>y\<in>set []. \<not> is_media_element y"
    by simp
  have ex: "\<not> os_path_exists sample_os (fsys (rn_init (jpegs []))) (path_join ''cave'' ''gone.jpg'')"
    by (simp add: rn_init_def sample_os_def jpegs_def path_join_def)
  have cC: "fst (rename_caves sample_os ''cave'' [cave5 [image_el ''gone.jpg'']] (rn_init (jpegs [])))
      = [cave5 [image_el ''gone.jpg'']]"
    unfolding rename_caves_fst
      rename_cave_single_missing[OF cave5_fields(1,2) timestamp_2023 el none none
          is_media_image image_el_fields(1) ex]
    by simp
  show ?thesis
    using wB wA nA wC tcB sample_fix_renamed cC by simp
qed

section \<open>Claim C5: what an error interrupts\<close>

lemma correct_element_lines:
  "length (console (snd (correct_element os d e st))) =
     length (console st) + (if efile e = None then 0 else 1)"
  by (auto simp add: correct_element_def Let_def say_def called_rename_def
      split: option.splits guess.splits)

lemma correct_elements_lines:
  "length (console (snd (correct_elements os d es st))) =
     length (console st) + length (filter (\<lambda>e. efile e \<noteq> None) es)"
proof (induction es arbitrary: st)
  case Nil
  then show ?case by simp
next
  case (Cons e es)
  obtain e1 st1 where el: "correct_element os d e st = (e1, st1)"
    by (cases "correct_element os d e st") auto
  have "length (console st1) = length (console st) + (if efile e = None then 0 else 1)"
    using correct_element_lines[of os d e st] el by simp
  with Cons.IH[of st1] el show ?case
    by (auto split: prod.splits)
qed

lemma correct_caves_lines:
  "length (console (snd (correct_caves os d cs st))) =
     length (console st) + length (filter (\<lambda>e. efile e \<noteq> None) (concat (map elements cs)))"
proof (induction cs arbitrary: st)
  case Nil
  then show ?case by simp
next
  case (Cons c cs)
  obtain es1 st1 where el: "correct_elements os d (elements c) st = (es1, st1)"
    by (cases "correct_elements os d (elements c) st") auto
  have "length (console st1) =
      length (console st) + length (filter (\<lambda>e. efile e \<noteq> None) (elements c))"
    using correct_elements_lines[of os d "elements c" st] el by simp
  with Cons.IH[of st1] el show ?case
    by (auto split: prod.splits)
qed

lemma rename_elements_missing_step:
  assumes "is_media_element e" and "efile e = Some f"
    and "\<not> os_path_exists os (fsys st) (path_join b f)"
  shows "rename_elements os b m (e # rest) st =
           (case rename_elements os b m rest
                   (st\<lparr>console := console st @ [SkippedMissing f],
                       total_skipped := total_skipped st + 1,
                       media_index := Suc (media_index st)\<rparr>) of
              (x, rest', st') \<Rightarrow> (x, e # rest', st'))"
  by (simp add: rename_element_missing[OF assms])

lemma rename_elements_failed_step:
  assumes "is_media_element e" and "efile e = Some f"
    and "os_path_exists os (fsys st) (path_join b f)"
    and "os_rename os (fsys st) (path_join b f)
           (path_join b (new_filename m (Suc (media_index st)) (snd (splitext f)))) = None"
  shows "rename_elements os b m (e # rest) st =
           (Some OSError, e # rest,
            st\<lparr>rename_calls := rename_calls st @
                    [(path_join b f,
                      path_join b (new_filename m (Suc (media_index st)) (snd (splitext f))))],
                media_index := Suc (media_index st)\<rparr>)"
  by (simp add: rename_element_failed[OF assms])

text \<open>
  The full reindex on a record with two images, both present, where the operating system
  refuses to rename the first: the error is caught for the record, and the second image
  is never looked at: no rename is attempted for it and no line is printed for it.
\<close>

theorem C5_counterexample:
  "rename_files_and_update_json sample_os [cave5 [image_el ''a.jpg'', image_el ''b.jpg'']] ''cave''
       ((jpegs [''a.jpg'', ''b.jpg''])\<lparr>locked := [''cave/a.jpg'']\<rparr>) =
     (Some [cave5 [image_el ''a.jpg'', image_el ''b.jpg'']],
      \<lparr>fsys = (jpegs [''a.jpg'', ''b.jpg''])\<lparr>locked := [''cave/a.jpg'']\<rparr>,
       rename_calls = [(''cave/a.jpg'', ''cave/5-1_c1-u1_1672531200000.jpg'')],
       console = [ErrorEntry (Some (JInt 5)) OSError],
       total_skipped = 0, total_renamed = 0, updated_json_entries = 0, media_index = 1,
       entry_updated = False\<rparr>)
   \<and> os_path_exists sample_os ((jpegs [''a.jpg'', ''b.jpg''])\<lparr>locked := [''cave/a.jpg'']\<rparr>)
        ''cave/b.jpg''"
proof -
  let ?fs = "(jpegs [''a.jpg'', ''b.jpg''])\<lparr>locked := [''cave/a.jpg'']\<rparr>"
  let ?st = "(rn_init ?fs)\<lparr>media_index := 0, entry_updated := False\<rparr>"
  have dir: "os_path_isdir sample_os ?fs ''cave''"
    by (simp add: sample_os_def jpegs_def)
  have ex: "os_path_exists sample_os (fsys ?st) (path_join ''cave'' ''a.jpg'')"
    by (simp add: rn_init_def sample_os_def jpegs_def path_join_def)
  have nf: "new_filename meta5 (Suc (media_index ?st)) (snd (splitext ''a.jpg''))
      = ''5-1_c1-u1_1672531200000.jpg''"
    by (simp add: rn_init_def splitext_a_b new_filename_meta5)
  have rn: "os_rename sample_os (fsys ?st) (path_join ''cave'' ''a.jpg'')
           (path_join ''cave'' (new_filename meta5 (Suc (media_index ?st)) (snd (splitext ''a.jpg''))))
      = None"
    unfolding nf by (simp add: rn_init_def sample_os_def sample_rename_def jpegs_def path_join_def)
  have loop: "rename_elements sample_os ''cave'' meta5 [image_el ''a.jpg'', image_el ''b.jpg''] ?st =
      (Some OSError, [image_el ''a.jpg'', image_el ''b.jpg''],
       ?st\<lparr>rename_calls := rename_calls ?st @
                [(path_join ''cave'' ''a.jpg'', path_join ''cave'' ''5-1_c1-u1_1672531200000.jpg'')],
           media_index := Suc (media_index ?st)\<rparr>)"
    using rename_elements_failed_step[OF is_media_image image_el_fields(1) ex rn]
    unfolding nf .
  have cave: "rename_cave sample_os ''cave'' (cave5 [image_el ''a.jpg'', image_el ''b.jpg'']) (rn_init ?fs) =
     (cave5 [image_el ''a.jpg'', image_el ''b.jpg''],
      \<lparr>fsys = ?fs,
       rename_calls = [(''cave/a.jpg'', ''cave/5-1_c1-u1_1672531200000.jpg'')],
       console = [ErrorEntry (Some (JInt 5)) OSError],
       total_skipped = 0, total_renamed = 0, updated_json_entries = 0, media_index = 1,
       entry_updated = False\<rparr>)"
    unfolding rename_cave5 loop
    by (simp add: say_def rn_init_def path_join_def)
  have "os_path_exists sample_os ?fs ''cave/b.jpg''"
    by (simp add: sample_os_def jpegs_def)
  with cave dir show ?thesis
    by (simp add: rename_files_and_update_json_def)
qed


lemma rename_cave_single_failed:
  assumes "cid cave = Some i" and "time cave = Some t"
    and "convert_iso_to_ms_timestamp t = Inr ts"
    and "elements cave = pre @ e # post"
    and "\<forall>x\<in>set pre. \<not> is_media_element x"
    and "is_media_element e" and "efile e = Some f"
    and "os_path_exists os (fsys st) (path_join b f)"
    and "m = \<lparr>m_cave_id = i, m_channel_id = dict_get (channelId cave) (JStr ''unknown''),
              m_user_id = dict_get (userId cave) (JStr ''unknown''), m_timestamp_ms = ts\<rparr>"
    and "new = new_filename m (Suc 0) (snd (splitext f))"
    and "os_rename os (fsys st) (path_join b f) (path_join b new) = None"
  shows "rename_cave os b cave st =
           (cave,
            st\<lparr>rename_calls := rename_calls st @ [(path_join b f, path_join b new)],
                console := console st @ [ErrorEntry (cid cave) OSError],
                media_index := Suc 0, entry_updated := False\<rparr>)"
proof -
  let ?st0 = "st\<lparr>media_index := 0, entry_updated := False\<rparr>"
  have ex: "os_path_exists os (fsys ?st0) (path_join b f)"
    using assms(8) by simp
  have rn: "os_rename os (fsys ?st0) (path_join b f)
           (path_join b (new_filename m (Suc (media_index ?st0)) (snd (splitext f)))) = None"
    using assms(10,11) by simp
  have pre: "rename_elements os b m (pre @ e # post) ?st0 =
      (case rename_elements os b m (e # post) ?st0 of (x, es, st') \<Rightarrow> (x, pre @ es, st'))"
    using assms(5)
  proof (induction pre arbitrary: st)
    case Nil
    then show ?case by (simp split: prod.splits)
  next
    case (Cons a pre)
    then show ?case
      by (simp add: rename_element_other split: prod.splits option.splits)
  qed
  have same: "cave\<lparr>elements := pre @ e # post\<rparr> = cave"
    using assms(4) by simp
  show ?thesis
    unfolding rename_cave_valid[OF assms(1,2,3)] assms(4) assms(9)[symmetric] pre
      rename_elements_failed_step[OF assms(6,7) ex rn]
    by (simp add: same say_def assms(10))
qed

text \<open>
  Claim C5, amended. In the extension fix every per-attachment error is caught and
  reported and the loop goes on: whatever the operating system and the detector do, the
  run prints exactly one line for every attachment with a file, of every record. In the
  full reindex a missing source file is reported and the loop goes on with the next
  attachment; a failing rename is caught for the whole record and reported once: the
  attachments of that record that follow are left as they are, and the run goes on with
  the next record.
\<close>

theorem C5_errors_and_the_batch:
  "length (console (snd (correct_caves os d cs fst0))) =
     length (console fst0) + length (filter (\<lambda>e. efile e \<noteq> None) (concat (map elements cs)))
   \<and> (is_media_element e \<and> efile e = Some f
        \<and> \<not> os_path_exists os (fsys st) (path_join b f) \<longrightarrow>
      rename_elements os b m (e # rest) st =
        (case rename_elements os b m rest
                (st\<lparr>console := console st @ [SkippedMissing f],
                    total_skipped := total_skipped st + 1,
                    media_index := Suc (media_index st)\<rparr>) of
           (x, rest', st') \<Rightarrow> (x, e # rest', st')))
   \<and> (is_media_element e \<and> efile e = Some f
        \<and> os_path_exists os (fsys st) (path_join b f)
        \<and> os_rename os (fsys st) (path_join b f)
             (path_join b (new_filename m (Suc (media_index st)) (snd (splitext f)))) = None \<longrightarrow>
      rename_elements os b m (e # rest) st =
        (Some OSError, e # rest,
         st\<lparr>rename_calls := rename_calls st @
                 [(path_join b f,
                   path_join b (new_filename m (Suc (media_index st)) (snd (splitext f))))],
             media_index := Suc (media_index st)\<rparr>))
   \<and> (cid cave = Some i \<and> time cave = Some t \<and> convert_iso_to_ms_timestamp t = Inr ts
        \<and> rename_elements os b
             \<lparr>m_cave_id = i, m_channel_id = dict_get (channelId cave) (JStr ''unknown''),
              m_user_id = dict_get (userId cave) (JStr ''unknown''), m_timestamp_ms = ts\<rparr>
             (elements cave) (st\<lparr>media_index := 0, entry_updated := False\<rparr>) = (Some x, es, st') \<longrightarrow>
      rename_cave os b cave st =
        (cave\<lparr>elements := es\<rparr>, st'\<lparr>console := console st' @ [ErrorEntry (cid cave) x]\<rparr>))
   \<and> rename_caves os b (xs @ ys) st =
       (case rename_caves os b xs st of
          (xs', st1) \<Rightarrow> (case rename_caves os b ys st1 of (ys', st2) \<Rightarrow> (xs' @ ys', st2)))"
proof -
  have p1: "length (console (snd (correct_caves os d cs fst0))) =
     length (console fst0) + length (filter (\<lambda>e. efile e \<noteq> None) (concat (map elements cs)))"
    by (rule correct_caves_lines)
  have p2: "is_media_element e \<and> efile e = Some f
        \<and> \<not> os_path_exists os (fsys st) (path_join b f) \<longrightarrow>
      rename_elements os b m (e # rest) st =
        (case rename_elements os b m rest
                (st\<lparr>console := console st @ [SkippedMissing f],
                    total_skipped := total_skipped st + 1,
                    media_index := Suc (media_index st)\<rparr>) of
           (x, rest', st') \<Rightarrow> (x, e # rest', st'))"
    using rename_elements_missing_step by blast
  have p3: "is_media_element e \<and> efile e = Some f
        \<and> os_path_exists os (fsys st) (path_join b f)
        \<and> os_rename os (fsys st) (path_join b f)
             (path_join b (new_filename m (Suc (media_index st)) (snd (splitext f)))) = None \<longrightarrow>
      rename_elements os b m (e # rest) st =
        (Some OSError, e # rest,
         st\<lparr>rename_calls := rename_calls st @
                 [(path_join b f,
                   path_join b (new_filename m (Suc (media_index st)) (snd (splitext f))))],
             media_index := Suc (media_index st)\<rparr>)"
    using rename_elements_failed_step by blast
  have p4: "cid cave = Some i \<and> time cave = Some t \<and> convert_iso_to_ms_timestamp t = Inr ts
        \<and> rename_elements os b
             \<lparr>m_cave_id = i, m_channel_id = dict_get (channelId cave) (JStr ''unknown''),
              m_user_id = dict_get (userId cave) (JStr ''unknown''), m_timestamp_ms = ts\<rparr>
             (elements cave) (st\<lparr>media_index := 0, entry_updated := False\<rparr>) = (Some x, es, st') \<longrightarrow>
      rename_cave os b cave st =
        (cave\<lparr>elements := es\<rparr>, st'\<lparr>console := console st' @ [ErrorEntry (cid cave) x]\<rparr>)"
    by (auto simp add: rename_cave_valid say_def)
  have p5: "rename_caves os b (xs @ ys) st =
       (case rename_caves os b xs st of
          (xs', st1) \<Rightarrow> (case rename_caves os b ys st1 of (ys', st2) \<Rightarrow> (xs' @ ys', st2)))"
    by (rule rename_caves_append)
  show ?thesis
    by (intro conjI p1 p2 p3 p4 p5)
qed


theorem C5_errors_and_the_batch_witness:
  "length (console (snd (correct_caves sample_os ''cave''
       [cave5 [text_el ''hi'', image_el ''gone.jpg'']] (fx_init (jpegs []))))) = 1
   \<and> rename_elements sample_os ''cave'' meta5 [image_el ''gone.jpg''] (rn_init (jpegs [])) =
       (None, [image_el ''gone.jpg''],
        (rn_init (jpegs []))\<lparr>console := [SkippedMissing ''gone.jpg''], total_skipped := 1,
                               media_index := 1\<rparr>)
   \<and> rename_elements sample_os ''cave'' meta5 [image_el ''a.jpg'', image_el ''b.jpg'']
         (rn_init ((jpegs [''a.jpg'', ''b.jpg''])\<lparr>locked := [''cave/a.jpg'']\<rparr>)) =
       (Some OSError, [image_el ''a.jpg'', image_el ''b.jpg''],
        (rn_init ((jpegs [''a.jpg'', ''b.jpg''])\<lparr>locked := [''cave/a.jpg'']\<rparr>))
          \<lparr>rename_calls := [(''cave/a.jpg'', ''cave/5-1_c1-u1_1672531200000.jpg'')],
           media_index := 1\<rparr>)
   \<and> console (snd (rename_caves sample_os ''cave''
         ([cave5 [image_el ''a.jpg'']] @ [cave6 [image_el ''b.jpg'']])
         (rn_init ((jpegs [''a.jpg'', ''b.jpg''])\<lparr>locked := [''cave/a.jpg'']\<rparr>)))) =
       [ErrorEntry (Some (JInt 5)) OSError, Renamed ''b.jpg'' ''6-1_c2-u2_1672531200000.jpg'']"
proof -
  let ?lk = "(jpegs [''a.jpg'', ''b.jpg''])\<lparr>locked := [''cave/a.jpg'']\<rparr>"
  let ?n5 = "''5-1_c1-u1_1672531200000.jpg''"
  let ?n6 = "''6-1_c2-u2_1672531200000.jpg''"
  have pj: "path_join ''cave'' ''a.jpg'' = ''cave/a.jpg''" "path_join ''cave'' ''b.jpg'' = ''cave/b.jpg''"
    "path_join ''cave'' ''gone.jpg'' = ''cave/gone.jpg''"
    "path_join ''cave'' ?n5 = ''cave/'' @ ?n5" "path_join ''cave'' ?n6 = ''cave/'' @ ?n6"
    by (simp_all add: path_join_def)
  \<comment> \<open>extension fix: one line per attachment with a file\<close>
  have "length (console (snd (correct_caves sample_os ''cave''
       [cave5 [text_el ''hi'', image_el ''gone.jpg'']] (fx_init (jpegs [])))))
     = length (console (fx_init (jpegs []))) + length (filter (\<lambda>e. efile e \<noteq> None)
         (concat (map elements [cave5 [text_el ''hi'', image_el ''gone.jpg'']])))"
    using C5_errors_and_the_batch[where os = sample_os and d = "''cave''"
        and cs = "[cave5 [text_el ''hi'', image_el ''gone.jpg'']]" and ?fst0.0 = "fx_init (jpegs [])"]
    by blast
  also have "\<dots> = 1"
    by (simp add: fx_init_def cave5_fields text_el_def image_el_def)
  finally have w1: "length (console (snd (correct_caves sample_os ''cave''
       [cave5 [text_el ''hi'', image_el ''gone.jpg'']] (fx_init (jpegs []))))) = 1" .
  \<comment> \<open>full reindex: a missing file\<close>
  have ex2: "\<not> os_path_exists sample_os (fsys (rn_init (jpegs []))) (path_join ''cave'' ''gone.jpg'')"
    unfolding pj by (simp add: rn_init_def sample_os_def jpegs_def)
  have "rename_elements sample_os ''cave'' meta5 (image_el ''gone.jpg'' # []) (rn_init (jpegs [])) =
        (case rename_elements sample_os ''cave'' meta5 []
                ((rn_init (jpegs []))\<lparr>console := console (rn_init (jpegs [])) @ [SkippedMissing ''gone.jpg''],
                    total_skipped := total_skipped (rn_init (jpegs [])) + 1,
                    media_index := Suc (media_index (rn_init (jpegs [])))\<rparr>) of
           (x, rest', st') \<Rightarrow> (x, image_el ''gone.jpg'' # rest', st'))"
    using C5_errors_and_the_batch[where os = sample_os and b = "''cave''" and m = meta5
        and e = "image_el ''gone.jpg''" and f = "''gone.jpg''" and rest = "[]"
        and st = "rn_init (jpegs [])"]
      is_media_image[of "''gone.jpg''"] image_el_fields(1)[of "''gone.jpg''"] ex2
    by blast
  then have w2: "rename_elements sample_os ''cave'' meta5 [image_el ''gone.jpg''] (rn_init (jpegs [])) =
       (None, [image_el ''gone.jpg''],
        (rn_init (jpegs []))\<lparr>console := [SkippedMissing ''gone.jpg''], total_skipped := 1,
                               media_index := 1\<rparr>)"
    by (simp add: rn_init_def)
  \<comment> \<open>full reindex: a refused rename\<close>
  have ex3: "os_path_exists sample_os (fsys (rn_init ?lk)) (path_join ''cave'' ''a.jpg'')"
    unfolding pj by (simp add: rn_init_def sample_os_def jpegs_def)
  have nf3: "new_filename meta5 (Suc (media_index (rn_init ?lk))) (snd (splitext ''a.jpg'')) = ?n5"
    by (simp add: rn_init_def splitext_a_b new_filename_meta5)
  have rn3: "os_rename sample_os (fsys (rn_init ?lk)) (path_join ''cave'' ''a.jpg'')
           (path_join ''cave'' (new_filename meta5 (Suc (media_index (rn_init ?lk)))
              (snd (splitext ''a.jpg'')))) = None"
    unfolding nf3 pj by (simp add: rn_init_def sample_os_def sample_rename_def jpegs_def)
  have "rename_elements sample_os ''cave'' meta5 (image_el ''a.jpg'' # [image_el ''b.jpg'']) (rn_init ?lk) =
        (Some OSError, image_el ''a.jpg'' # [image_el ''b.jpg''],
         (rn_init ?lk)\<lparr>rename_calls := rename_calls (rn_init ?lk) @
                 [(path_join ''cave'' ''a.jpg'',
                   path_join ''cave'' (new_filename meta5 (Suc (media_index (rn_init ?lk)))
                      (snd (splitext ''a.jpg''))))],
             media_index := Suc (media_index (rn_init ?lk))\<rparr>)"
    using C5_errors_and_the_batch[where os = sample_os and b = "''cave''" and m = meta5
        and e = "image_el ''a.jpg''" and f = "''a.jpg''" and rest = "[image_el ''b.jpg'']"
        and st = "rn_init ?lk"]
      is_media_image[of "''a.jpg''"] image_el_fields(1)[of "''a.jpg''"] ex3 rn3
    by blast
  then have w3: "rename_elements sample_os ''cave'' meta5 [image_el ''a.jpg'', image_el ''b.jpg'']
         (rn_init ?lk) =
       (Some OSError, [image_el ''a.jpg'', image_el ''b.jpg''],
        (rn_init ?lk)\<lparr>rename_calls := [(''cave/a.jpg'', ''cave/5-1_c1-u1_1672531200000.jpg'')],
           media_index := 1\<rparr>)"
    unfolding nf3 pj by (simp add: rn_init_def)
  \<comment> \<open>full reindex: the record after the one with the refused rename\<close>
  let ?st5 = "(rn_init ?lk)\<lparr>rename_calls := [(''cave/a.jpg'', ''cave/'' @ ?n5)],
                console := [ErrorEntry (Some (JInt 5)) OSError],
                media_index := Suc 0, entry_updated := False\<rparr>"
  have el5: "elements (cave5 [image_el ''a.jpg'']) = [] @ image_el ''a.jpg'' # []"
    and el6: "elements (cave6 [image_el ''b.jpg'']) = [] @ image_el ''b.jpg'' # []"
    by (simp_all add: cave5_fields cave6_fields)
  have none: "\<forall>y\<in>set []. \<not> is_media_element y"
    by simp
  have nf5: "?n5 = new_filename meta5 (Suc 0) (snd (splitext ''a.jpg''))"
    by (simp add: splitext_a_b new_filename_meta5)
  have rn5: "os_rename sample_os (fsys (rn_init ?lk)) (path_join ''cave'' ''a.jpg'')
      (path_join ''cave'' ?n5) = None"
    unfolding pj by (simp add: rn_init_def sample_os_def sample_rename_def jpegs_def)
  have r5: "rename_cave sample_os ''cave'' (cave5 [image_el ''a.jpg'']) (rn_init ?lk)
      = (cave5 [image_el ''a.jpg''], ?st5)"
    using rename_cave_single_failed[OF cave5_fields(1,2) timestamp_2023 el5 none
          is_media_image image_el_fields(1) ex3 cave5_fields(4) nf5 rn5]
    by (simp add: pj cave5_fields rn_init_def)
  have ex6: "os_path_exists sample_os (fsys ?st5) (path_join ''cave'' ''b.jpg'')"
    unfolding pj by (simp add: rn_init_def sample_os_def jpegs_def)
  have nf6: "?n6 = new_filename meta6 (Suc 0) (snd (splitext ''b.jpg''))"
    by (simp add: splitext_a_b new_filename_meta6)
  have rn6: "os_rename sample_os (fsys ?st5) (path_join ''cave'' ''b.jpg'') (path_join ''cave'' ?n6)
      = Some ((jpegs [''a.jpg'', ?n6])\<lparr>locked := [''cave/a.jpg'']\<rparr>)"
    unfolding pj by (simp add: rn_init_def sample_os_def sample_rename_def jpegs_def)
  have r6: "console (snd (rename_cave sample_os ''cave'' (cave6 [image_el ''b.jpg'']) ?st5))
      = [ErrorEntry (Some (JInt 5)) OSError, Renamed ''b.jpg'' ?n6]"
    using rename_cave_single_renamed[OF cave6_fields(1,2) timestamp_2023 el6 none none
          is_media_image image_el_fields(1) ex6 cave6_fields(4) nf6 rn6]
    by (simp add: rn_init_def)
  have "rename_caves sample_os ''cave'' ([cave5 [image_el ''a.jpg'']] @ [cave6 [image_el ''b.jpg'']])
          (rn_init ?lk) =
       (case rename_caves sample_os ''cave'' [cave5 [image_el ''a.jpg'']] (rn_init ?lk) of
          (xs', st1) \<Rightarrow> (case rename_caves sample_os ''cave'' [cave6 [image_el ''b.jpg'']] st1 of
                          (ys', st2) \<Rightarrow> (xs' @ ys', st2)))"
    using C5_errors_and_the_batch[where os = sample_os and b = "''cave''"
        and xs = "[cave5 [image_el ''a.jpg'']]" and ys = "[cave6 [image_el ''b.jpg'']]"
        and st = "rn_init ?lk"]
    by blast
  then have w4: "console (snd (rename_caves sample_os ''cave''
         ([cave5 [image_el ''a.jpg'']] @ [cave6 [image_el ''b.jpg'']]) (rn_init ?lk))) =
       [ErrorEntry (Some (JInt 5)) OSError, Renamed ''b.jpg'' ?n6]"
    by (simp only: case_prod_beta snd_conv rename_caves_snd r5 r6)
  show ?thesis
    by (intro conjI w1 w2 w3 w4)
qed

section \<open>Claim C6: malformed documents and missing paths\<close>

lemma rename_cave_missing_key:
  assumes "cid cave = None \<or> time cave = None"
  shows "rename_cave os b cave st =
           (cave, say (WarnMissingKey (if cid cave = None then ''id'' else ''time'')) st)"
  using assms by (auto simp add: rename_cave_def split: option.splits)

lemma sample_run_after_warning:
  "rename_cave sample_os ''cave'' (cave5 [image_el ''photo.jpg''])
       (say (WarnMissingKey ''time'') (rn_init (jpegs [''photo.jpg'']))) =
     (cave5 [image_el ''5-1_c1-u1_1672531200000.jpg''],
      \<lparr>fsys = jpegs [''5-1_c1-u1_1672531200000.jpg''],
       rename_calls = [(''cave/photo.jpg'', ''cave/5-1_c1-u1_1672531200000.jpg'')],
       console = [WarnMissingKey ''time'', Renamed ''photo.jpg'' ''5-1_c1-u1_1672531200000.jpg''],
       total_skipped = 0, total_renamed = 1, updated_json_entries = 1, media_index = 1,
       entry_updated = True\<rparr>)"
proof -
  let ?st = "say (WarnMissingKey ''time'') (rn_init (jpegs [''photo.jpg'']))"
  let ?n = "''5-1_c1-u1_1672531200000.jpg''"
  have pj: "path_join ''cave'' ''photo.jpg'' = ''cave/photo.jpg''"
    "path_join ''cave'' ?n = ''cave/'' @ ?n"
    by (simp_all add: path_join_def)
  have el: "elements (cave5 [image_el ''photo.jpg'']) = [] @ image_el ''photo.jpg'' # []"
    by (simp add: cave5_fields)
  have none: "\<forall>y\<in>set []. \<not> is_media_element y"
    by simp
  have ex: "os_path_exists sample_os (fsys ?st) (path_join ''cave'' ''photo.jpg'')"
    unfolding pj by (simp add: say_def rn_init_def sample_os_def jpegs_def)
  have nf: "?n = new_filename meta5 (Suc 0) (snd (splitext ''photo.jpg''))"
    by (simp add: splitext_photo new_filename_meta5)
  have rn: "os_rename sample_os (fsys ?st) (path_join ''cave'' ''photo.jpg'') (path_join ''cave'' ?n)
      = Some (jpegs [?n])"
    unfolding pj by (simp add: say_def rn_init_def sample_os_def sample_rename_def jpegs_def)
  show ?thesis
    using rename_cave_single_renamed[OF cave5_fields(1,2) timestamp_2023 el none none
          is_media_image image_el_fields(1) ex cave5_fields(4) nf rn]
    by (simp add: pj cave5_fields image_el_fields say_def rn_init_def)
qed

text \<open>
  The full reindex on a document whose first record has no \<^verbatim>\<open>time\<close>: the run prints a
  warning and goes on; the file of the second record is renamed and the output document
  is written.
\<close>

theorem C6_counterexample:
  "reindex_main sample_os
       (Document [(cave6 [])\<lparr>time := None\<rparr>, cave5 [image_el ''photo.jpg'']]) ''cave'' True
       (jpegs [''photo.jpg'']) =
     (Some [(cave6 [])\<lparr>time := None\<rparr>, cave5 [image_el ''5-1_c1-u1_1672531200000.jpg'']], None,
      \<lparr>fsys = jpegs [''5-1_c1-u1_1672531200000.jpg''],
       rename_calls = [(''cave/photo.jpg'', ''cave/5-1_c1-u1_1672531200000.jpg'')],
       console = [WarnMissingKey ''time'', Renamed ''photo.jpg'' ''5-1_c1-u1_1672531200000.jpg'',
                  Saved],
       total_skipped = 0, total_renamed = 1, updated_json_entries = 1, media_index = 1,
       entry_updated = True\<rparr>)"
proof -
  let ?bad = "(cave6 [])\<lparr>time := None\<rparr>"
  have bad: "rename_cave sample_os ''cave'' ?bad (rn_init (jpegs [''photo.jpg''])) =
      (?bad, say (WarnMissingKey ''time'') (rn_init (jpegs [''photo.jpg''])))"
    using rename_cave_missing_key[of ?bad sample_os "''cave''" "rn_init (jpegs [''photo.jpg''])"]
    by (simp add: cave6_def)
  show ?thesis
    unfolding reindex_main_def rename_files_and_update_json_def
    using bad sample_run_after_warning
    by (simp add: sample_isdir say_def)
qed

text \<open>
  Claim C6, amended. If the input document or the media directory is missing, or (in the
  extension fix) the document is not valid JSON, the run stops with one diagnostic line
  before any mutation of the file system or the document. In the full reindex a document
  that is not valid JSON ends the process with the uncaught \<^verbatim>\<open>JSONDecodeError\<close>,
  also before any mutation. A record that lacks a required field (\<^verbatim>\<open>id\<close> or
  \<^verbatim>\<open>time\<close>, in the full reindex) does not abort the run: it is skipped with a warning,
  left as it is, no rename is made for it, and the run goes on with the records that
  follow.
\<close>

theorem C6_aborts_and_skipped_records:
  "(json = Absent \<or> json = Garbage \<or> \<not> os_path_isdir os fs d \<longrightarrow>
      fst (correct_files_and_update_json os json d w fs) = json
      \<and> fsys (snd (correct_files_and_update_json os json d w fs)) = fs
      \<and> rename_calls (snd (correct_files_and_update_json os json d w fs)) = []
      \<and> length (console (snd (correct_files_and_update_json os json d w fs))) = 1)
   \<and> (json = Absent \<or> \<not> os_path_isdir os fs d \<longrightarrow>
      fst (reindex_main os json d w fs) = None
      \<and> fst (snd (reindex_main os json d w fs)) = None
      \<and> fsys (snd (snd (reindex_main os json d w fs))) = fs
      \<and> rename_calls (snd (snd (reindex_main os json d w fs))) = []
      \<and> length (console (snd (snd (reindex_main os json d w fs)))) = 1)
   \<and> (json = Garbage \<and> os_path_isdir os fs d \<longrightarrow>
      reindex_main os json d w fs = (None, Some JSONDecodeError, rn_init fs))
   \<and> (cid cave = None \<or> time cave = None \<longrightarrow>
      rename_cave os b cave st =
        (cave, st\<lparr>console := console st @
                      [WarnMissingKey (if cid cave = None then ''id'' else ''time'')]\<rparr>)
      \<and> rename_caves os b (cave # rest) st =
          (cave # fst (rename_caves os b rest
                         (st\<lparr>console := console st @
                              [WarnMissingKey (if cid cave = None then ''id'' else ''time'')]\<rparr>)),
           snd (rename_caves os b rest
                  (st\<lparr>console := console st @
                       [WarnMissingKey (if cid cave = None then ''id'' else ''time'')]\<rparr>))))"
proof -
  have p1: "json = Absent \<or> json = Garbage \<or> \<not> os_path_isdir os fs d \<longrightarrow>
      fst (correct_files_and_update_json os json d w fs) = json
      \<and> fsys (snd (correct_files_and_update_json os json d w fs)) = fs
      \<and> rename_calls (snd (correct_files_and_update_json os json d w fs)) = []
      \<and> length (console (snd (correct_files_and_update_json os json d w fs))) = 1"
    by (auto simp add: correct_files_and_update_json_def say_def fx_init_def split: stored.splits)
  have p2: "json = Absent \<or> \<not> os_path_isdir os fs d \<longrightarrow>
      fst (reindex_main os json d w fs) = None
      \<and> fst (snd (reindex_main os json d w fs)) = None
      \<and> fsys (snd (snd (reindex_main os json d w fs))) = fs
      \<and> rename_calls (snd (snd (reindex_main os json d w fs))) = []
      \<and> length (console (snd (snd (reindex_main os json d w fs)))) = 1"
    by (auto simp add: reindex_main_def say_def rn_init_def split: stored.splits)
  have p3: "json = Garbage \<and> os_path_isdir os fs d \<longrightarrow>
      reindex_main os json d w fs = (None, Some JSONDecodeError, rn_init fs)"
    by (simp add: reindex_main_def)
  have p4: "cid cave = None \<or> time cave = None \<longrightarrow>
      rename_cave os b cave st =
        (cave, st\<lparr>console := console st @
                      [WarnMissingKey (if cid cave = None then ''id'' else ''time'')]\<rparr>)
      \<and> rename_caves os b (cave # rest) st =
          (cave # fst (rename_caves os b rest
                         (st\<lparr>console := console st @
                              [WarnMissingKey (if cid cave = None then ''id'' else ''time'')]\<rparr>)),
           snd (rename_caves os b rest
                  (st\<lparr>console := console st @
                       [WarnMissingKey (if cid cave = None then ''id'' else ''time'')]\<rparr>)))"
  proof
    assume a: "cid cave = None \<or> time cave = None"
    have c: "rename_cave os b cave st =
        (cave, st\<lparr>console := console st @
                      [WarnMissingKey (if cid cave = None then ''id'' else ''time'')]\<rparr>)"
      using rename_cave_missing_key[OF a, of os b st] by (simp add: say_def)
    then show "rename_cave os b cave st =
        (cave, st\<lparr>console := console st @
                      [WarnMissingKey (if cid cave = None then ''id'' else ''time'')]\<rparr>)
      \<and> rename_caves os b (cave # rest) st =
          (cave # fst (rename_caves os b rest
                         (st\<lparr>console := console st @
                              [WarnMissingKey (if cid cave = None then ''id'' else ''time'')]\<rparr>)),
           snd (rename_caves os b rest
                  (st\<lparr>console := console st @
                       [WarnMissingKey (if cid cave = None then ''id'' else ''time'')]\<rparr>)))"
      by (simp add: prod_eq_iff rename_caves_fst rename_caves_snd del: rename_caves.simps)
  qed
  show ?thesis
    by (intro conjI p1 p2 p3 p4)
qed


theorem C6_aborts_and_skipped_records_witness:
  "fst (correct_files_and_update_json sample_os Garbage ''cave'' True (jpegs [''photo.png'']))
     = Garbage
   \<and> fsys (snd (correct_files_and_update_json sample_os Garbage ''cave'' True (jpegs [''photo.png''])))
     = jpegs [''photo.png'']
   \<and> rename_calls (snd (correct_files_and_update_json sample_os Garbage ''cave'' True
        (jpegs [''photo.png'']))) = []
   \<and> fst (reindex_main sample_os Absent ''cave'' True (jpegs [''photo.jpg''])) = None
   \<and> fsys (snd (snd (reindex_main sample_os Absent ''cave'' True (jpegs [''photo.jpg'']))))
     = jpegs [''photo.jpg'']
   \<and> reindex_main sample_os Garbage ''cave'' True (jpegs [''photo.jpg''])
     = (None, Some JSONDecodeError, rn_init (jpegs [''photo.jpg'']))
   \<and> rename_caves sample_os ''cave'' [(cave6 [])\<lparr>time := None\<rparr>, cave5 [image_el ''photo.jpg'']]
        (rn_init (jpegs [''photo.jpg'']))
     = ([(cave6 [])\<lparr>time := None\<rparr>, cave5 [image_el ''5-1_c1-u1_1672531200000.jpg'']],
        \<lparr>fsys = jpegs [''5-1_c1-u1_1672531200000.jpg''],
         rename_calls = [(''cave/photo.jpg'', ''cave/5-1_c1-u1_1672531200000.jpg'')],
         console = [WarnMissingKey ''time'', Renamed ''photo.jpg'' ''5-1_c1-u1_1672531200000.jpg''],
         total_skipped = 0, total_renamed = 1, updated_json_entries = 1, media_index = 1,
         entry_updated = True\<rparr>)"
proof -
  let ?bad = "(cave6 [])\<lparr>time := None\<rparr>"
  let ?st = "rn_init (jpegs [''photo.jpg''])"
  have w1: "fst (correct_files_and_update_json sample_os Garbage ''cave'' True (jpegs [''photo.png'']))
       = Garbage
     \<and> fsys (snd (correct_files_and_update_json sample_os Garbage ''cave'' True (jpegs [''photo.png''])))
       = jpegs [''photo.png'']
     \<and> rename_calls (snd (correct_files_and_update_json sample_os Garbage ''cave'' True
          (jpegs [''photo.png'']))) = []"
    using C6_aborts_and_skipped_records[where os = sample_os and json = Garbage and d = "''cave''"
        and w = True and fs = "jpegs [''photo.png'']"]
    by simp
  have w2: "fst (reindex_main sample_os Absent ''cave'' True (jpegs [''photo.jpg''])) = None
     \<and> fsys (snd (snd (reindex_main sample_os Absent ''cave'' True (jpegs [''photo.jpg'']))))
       = jpegs [''photo.jpg'']"
    using C6_aborts_and_skipped_records[where os = sample_os and json = Absent and d = "''cave''"
        and w = True and fs = "jpegs [''photo.jpg'']"]
    by simp
  have w3: "reindex_main sample_os Garbage ''cave'' True (jpegs [''photo.jpg''])
     = (None, Some JSONDecodeError, rn_init (jpegs [''photo.jpg'']))"
    using C6_aborts_and_skipped_records[where os = sample_os and json = Garbage and d = "''cave''"
        and w = True and fs = "jpegs [''photo.jpg'']"]
      sample_isdir[of "[''photo.jpg'']"]
    by simp
  have key: "cid ?bad \<noteq> None" "time ?bad = None"
    by (simp_all add: cave6_def)
  have rest: "rename_caves sample_os ''cave'' [cave5 [image_el ''photo.jpg'']]
        (?st\<lparr>console := console ?st @ [WarnMissingKey ''time'']\<rparr>)
     = ([cave5 [image_el ''5-1_c1-u1_1672531200000.jpg'']],
        \<lparr>fsys = jpegs [''5-1_c1-u1_1672531200000.jpg''],
         rename_calls = [(''cave/photo.jpg'', ''cave/5-1_c1-u1_1672531200000.jpg'')],
         console = [WarnMissingKey ''time'', Renamed ''photo.jpg'' ''5-1_c1-u1_1672531200000.jpg''],
         total_skipped = 0, total_renamed = 1, updated_json_entries = 1, media_index = 1,
         entry_updated = True\<rparr>)"
    using sample_run_after_warning by (simp add: say_def)
  have "rename_caves sample_os ''cave'' (?bad # [cave5 [image_el ''photo.jpg'']]) ?st =
          (?bad # fst (rename_caves sample_os ''cave'' [cave5 [image_el ''photo.jpg'']]
                         (?st\<lparr>console := console ?st @
                              [WarnMissingKey (if cid ?bad = None then ''id'' else ''time'')]\<rparr>)),
           snd (rename_caves sample_os ''cave'' [cave5 [image_el ''photo.jpg'']]
                  (?st\<lparr>console := console ?st @
                       [WarnMissingKey (if cid ?bad = None then ''id'' else ''time'')]\<rparr>)))"
    using C6_aborts_and_skipped_records[where os = sample_os and b = "''cave''" and cave = ?bad
        and rest = "[cave5 [image_el ''photo.jpg'']]" and st = ?st]
      key(2)
    by blast
  then have w4: "rename_caves sample_os ''cave'' [?bad, cave5 [image_el ''photo.jpg'']] ?st
     = ([?bad, cave5 [image_el ''5-1_c1-u1_1672531200000.jpg'']],
        \<lparr>fsys = jpegs [''5-1_c1-u1_1672531200000.jpg''],
         rename_calls = [(''cave/photo.jpg'', ''cave/5-1_c1-u1_1672531200000.jpg'')],
         console = [WarnMissingKey ''time'', Renamed ''photo.jpg'' ''5-1_c1-u1_1672531200000.jpg''],
         total_skipped = 0, total_renamed = 1, updated_json_entries = 1, media_index = 1,
         entry_updated = True\<rparr>)"
    by (simp only: key if_False rest fst_conv snd_conv)
  show ?thesis
    using w1 w2 w3 w4 by (intro conjI) simp_all
qed

section \<open>Claim C10: records without an id or a contributor\<close>

lemma same_but_console_say: "same_but_console (say ev s) s"
  by (simp add: same_but_console_def say_def)

lemma convert_element_console:
  assumes "same_but_console s t"
  shows "fst (convert_element os d c ch u e s) = fst (convert_element os d c ch u e t)
         \<and> same_but_console (snd (convert_element os d c ch u e s))
              (snd (convert_element os d c ch u e t))"
  using assms
  by (auto simp add: convert_element_def same_but_console_def Let_def say_def called_rename_def
      split: option.splits)

lemma convert_elements_console:
  assumes "same_but_console s t"
  shows "fst (convert_elements os d c ch u es s) = fst (convert_elements os d c ch u es t)
         \<and> same_but_console (snd (convert_elements os d c ch u es s))
              (snd (convert_elements os d c ch u es t))"
  using assms
proof (induction es arbitrary: s t)
  case Nil
  then show ?case by simp
next
  case (Cons e es)
  obtain e1 s1 where a: "convert_element os d c ch u e s = (e1, s1)"
    by (cases "convert_element os d c ch u e s") auto
  obtain e2 t1 where b: "convert_element os d c ch u e t = (e2, t1)"
    by (cases "convert_element os d c ch u e t") auto
  from convert_element_console[OF Cons.prems, of os d c ch u e] a b
  have "e1 = e2" "same_but_console s1 t1"
    by simp_all
  with Cons.IH[of s1 t1] a b show ?case
    by (auto split: prod.splits)
qed

lemma convert_item_body_console:
  assumes "same_but_console s t"
  shows "same_but_console (convert_item_body os d clock c u n ch es s)
           (convert_item_body os d clock c u n ch es t)"
proof -
  have "same_but_console (s\<lparr>media_index_counter := 1\<rparr>) (t\<lparr>media_index_counter := 1\<rparr>)"
    using assms by (simp add: same_but_console_def)
  from convert_elements_console[OF this, of os d c ch u es]
  show ?thesis
    by (auto simp add: convert_item_body_def same_but_console_def split: prod.splits)
qed

lemma read_channel_id_console:
  assumes "same_but_console s t"
  shows "fst (read_channel_id s rs) = fst (read_channel_id t rs)
         \<and> same_but_console (snd (read_channel_id s rs)) (snd (read_channel_id t rs))"
  using assms
proof (induction s rs arbitrary: t rule: read_channel_id.induct)
  case (1 st)
  then show ?case by (simp add: same_but_console_def)
next
  case (2 st rs)
  then show ?case by (simp add: same_but_console_def)
next
  case (3 st l rs)
  show ?case
  proof (cases "l = []")
    case True
    have "same_but_console (say EmptyChannelId st) (say EmptyChannelId t)"
      using "3.prems" by (simp add: same_but_console_def say_def)
    from "3.IH"[OF True this] True show ?thesis
      by simp
  next
    case False
    with "3.prems" show ?thesis
      by (simp add: same_but_console_def)
  qed
qed

lemma convert_items_console:
  assumes "same_but_console s t"
  shows "fst (convert_items os d clock items s) = fst (convert_items os d clock items t)
         \<and> same_but_console (snd (convert_items os d clock items s))
              (snd (convert_items os d clock items t))"
  using assms
proof (induction items arbitrary: s t)
  case Nil
  then show ?case by simp
next
  case (Cons item rest)
  let ?c = "dict_get (item_cave_id item) JNull"
  let ?u = "dict_get (item_contributor_number item) JNull"
  let ?n = "dict_get (item_contributor_name item) (JStr ''Unknown'')"
  have m: "user_channel_map s = user_channel_map t" and i: "stdin s = stdin t"
    using Cons.prems by (simp_all add: same_but_console_def)
  show ?case
  proof (cases "truthy ?c \<and> truthy ?u")
    case False
    have "same_but_console (say WarnSkippedRecord s) (say WarnSkippedRecord t)"
      using Cons.prems by (simp add: same_but_console_def say_def)
    from Cons.IH[OF this] False show ?thesis
      by (simp add: Let_def)
  next
    case True
    show ?thesis
    proof (cases "user_channel_map s ?u")
      case (Some ch)
      from Cons.IH[OF convert_item_body_console[OF Cons.prems, of os d clock ?c ?u ?n ch "item_elements item"]]
        True Some m
      show ?thesis
        by (simp add: Let_def)
    next
      case None
      have p: "same_but_console (say (NewUserPrompt ?u) s) (say (NewUserPrompt ?u) t)"
        using Cons.prems by (simp add: same_but_console_def say_def)
      obtain r1 s1 where a: "read_channel_id (say (NewUserPrompt ?u) s) (stdin s) = (r1, s1)"
        by (cases "read_channel_id (say (NewUserPrompt ?u) s) (stdin s)") auto
      obtain r2 t1 where b: "read_channel_id (say (NewUserPrompt ?u) t) (stdin t) = (r2, t1)"
        by (cases "read_channel_id (say (NewUserPrompt ?u) t) (stdin t)") auto
      from read_channel_id_console[OF p, of "stdin s"] a b i
      have r: "r1 = r2" and st: "same_but_console s1 t1"
        by simp_all
      have b1: "read_channel_id (say (NewUserPrompt ?u) t) (stdin t) = (r1, t1)"
        using b r by simp
      show ?thesis
      proof (cases r1)
        case (Answer ch)
        have "same_but_console (s1\<lparr>user_channel_map := (user_channel_map s1)(?u \<mapsto> ch)\<rparr>)
                (t1\<lparr>user_channel_map := (user_channel_map t1)(?u \<mapsto> ch)\<rparr>)"
          using st by (simp add: same_but_console_def)
        from Cons.IH[OF convert_item_body_console[OF this, of os d clock ?c ?u ?n ch "item_elements item"]]
          True None m a b1 Answer
        show ?thesis
          by (simp add: Let_def)
      next
        case Interrupt
        with True None m a b1 st show ?thesis
          by (simp add: Let_def same_but_console_def say_def)
      next
        case EndOfInput
        with True None m a b1 st show ?thesis
          by (simp add: Let_def)
      qed
    qed
  qed
qed


text \<open>
  Claim C10. In the schema conversion a record whose \<^verbatim>\<open>cave_id\<close> or
  \<^verbatim>\<open>contributor_number\<close> is falsy is skipped entirely: the loop goes on with the rest
  after printing a warning, so the result (the exception status, the output document, the
  file system, the rename calls, the mapping and the remaining input) is what the run
  without that record gives; only the printed lines differ. The falsy values are exactly
  an absent key, \<^verbatim>\<open>None\<close>, the empty string and the number 0; in particular a record
  with id 0 is treated as a record without id.
\<close>

theorem C10_falsy_ids_are_skipped:
  "(\<not> truthy (dict_get (item_cave_id item) JNull)
      \<or> \<not> truthy (dict_get (item_contributor_number item) JNull) \<longrightarrow>
      convert_items os d clock (item # rest) st =
        convert_items os d clock rest (say WarnSkippedRecord st)
      \<and> fst (convert_items os d clock (item # rest) st) = fst (convert_items os d clock rest st)
      \<and> same_but_console (snd (convert_items os d clock (item # rest) st))
           (snd (convert_items os d clock rest st)))
   \<and> (\<not> truthy (dict_get v JNull) \<longleftrightarrow>
        v = None \<or> v = Some JNull \<or> v = Some (JStr []) \<or> v = Some (JInt 0))
   \<and> convert_items os d clock (item\<lparr>item_cave_id := Some (JInt 0)\<rparr> # rest) st =
       convert_items os d clock (item\<lparr>item_cave_id := None\<rparr> # rest) st"
proof -
  have p1: "\<not> truthy (dict_get (item_cave_id item) JNull)
      \<or> \<not> truthy (dict_get (item_contributor_number item) JNull) \<longrightarrow>
      convert_items os d clock (item # rest) st =
        convert_items os d clock rest (say WarnSkippedRecord st)
      \<and> fst (convert_items os d clock (item # rest) st) = fst (convert_items os d clock rest st)
      \<and> same_but_console (snd (convert_items os d clock (item # rest) st))
           (snd (convert_items os d clock rest st))"
  proof
    assume a: "\<not> truthy (dict_get (item_cave_id item) JNull)
      \<or> \<not> truthy (dict_get (item_contributor_number item) JNull)"
    then have step: "convert_items os d clock (item # rest) st =
        convert_items os d clock rest (say WarnSkippedRecord st)"
      by (auto simp add: Let_def)
    from convert_items_console[OF same_but_console_say, of os d clock rest WarnSkippedRecord st]
    show "convert_items os d clock (item # rest) st =
        convert_items os d clock rest (say WarnSkippedRecord st)
      \<and> fst (convert_items os d clock (item # rest) st) = fst (convert_items os d clock rest st)
      \<and> same_but_console (snd (convert_items os d clock (item # rest) st))
           (snd (convert_items os d clock rest st))"
      unfolding step by simp
  qed
  have p2: "\<not> truthy (dict_get v JNull) \<longleftrightarrow>
        v = None \<or> v = Some JNull \<or> v = Some (JStr []) \<or> v = Some (JInt 0)"
  proof (cases v)
    case None
    then show ?thesis by (simp add: dict_get_def)
  next
    case (Some x)
    then show ?thesis by (cases x) (simp_all add: dict_get_def)
  qed
  have p3: "convert_items os d clock (item\<lparr>item_cave_id := Some (JInt 0)\<rparr> # rest) st =
       convert_items os d clock (item\<lparr>item_cave_id := None\<rparr> # rest) st"
    by (simp add: Let_def dict_get_def)
  show ?thesis
    by (intro conjI p1 p2 p3)
qed

theorem C10_falsy_ids_are_skipped_witness:
  "convert_items sample_os ''resources'' (\<lambda>k. ''now'')
       [\<lparr>item_cave_id = Some (JInt 0), item_contributor_number = Some (JInt 99),
         item_contributor_name = None, item_elements = [image_el ''x.png'']\<rparr>]
       (cv_init (jpegs []) Map.empty []) =
     (None, (cv_init (jpegs []) Map.empty [])\<lparr>console := [WarnSkippedRecord]\<rparr>)"
proof -
  let ?item = "\<lparr>item_cave_id = Some (JInt 0), item_contributor_number = Some (JInt 99),
         item_contributor_name = None, item_elements = [image_el ''x.png'']\<rparr>"
  let ?st = "cv_init (jpegs []) Map.empty [] :: sample_fs cv_state"
  have falsy: "\<not> truthy (dict_get (item_cave_id ?item) JNull)"
    by (simp add: dict_get_def)
  have "convert_items sample_os ''resources'' (\<lambda>k. ''now'') (?item # []) ?st =
        convert_items sample_os ''resources'' (\<lambda>k. ''now'') [] (say WarnSkippedRecord ?st)"
    using C10_falsy_ids_are_skipped[where os = sample_os and d = "''resources''"
        and clock = "\<lambda>k. ''now''" and item = ?item and rest = "[]" and st = ?st]
      falsy
    by blast
  then show ?thesis
    by (simp add: say_def cv_init_def)
qed

end
